theory Spec2Isabelle
  imports Complex_Main
begin

section \<open>Strings\<close>

text \<open>
  Source strings are lists of characters. A JavaScript string is a sequence of 16-bit code
  units and a character of the model is one of the 256 characters of the type \<open>char\<close>: the
  model covers the sources whose code units are below \<open>U+0100\<close>. The tokenizer and the
  parser compare characters with ASCII literals only. The string methods used by the
  source are total there and are written out here: \<open>s.startsWith(p)\<close>, \<open>s.endsWith(p)\<close>, \<open>s.slice(n)\<close> is \<open>drop n s\<close>,
  \<open>s.slice(0, -1)\<close> is \<open>butlast s\<close> (both give the empty string on the empty string),
  \<open>s.indexOf(c)\<close>, \<open>s.split(c)\<close> and \<open>xs.join(sep)\<close>.
\<close>

definition startsWith :: "string \<Rightarrow> string \<Rightarrow> bool" where
  "startsWith p s = (take (length p) s = p)"

definition endsWith :: "string \<Rightarrow> string \<Rightarrow> bool" where
  "endsWith p s = (length p \<le> length s \<and> drop (length s - length p) s = p)"

fun indexOf :: "char \<Rightarrow> string \<Rightarrow> nat option" where
  "indexOf c [] = None"
| "indexOf c (x # xs) =
     (if x = c then Some 0 else map_option Suc (indexOf c xs))"

fun split :: "char \<Rightarrow> string \<Rightarrow> string list" where
  "split c [] = [[]]"
| "split c (x # xs) =
     (if x = c then [] # split c xs
      else (case split c xs of p # ps \<Rightarrow> (x # p) # ps | [] \<Rightarrow> [[x]]))"

fun join :: "string \<Rightarrow> string list \<Rightarrow> string" where
  "join sep [] = []"
| "join sep [x] = x"
| "join sep (x # y # ys) = x @ sep @ join sep (y # ys)"

section \<open>Tokenizer (src/lib/parser/tokenizer.ts)\<close>

datatype TokenType = EXTENDED_COMMAND | COMMAND | WHITESPACE | NEWLINE | EOF

record Token =
  tok_type :: TokenType
  tok_value :: string
  tok_line :: nat
  tok_column :: nat

text \<open>
  The class \<open>Tokenizer\<close> holds \<open>source\<close>, \<open>pos\<close>, \<open>line\<close> and \<open>column\<close>. It only ever reads
  \<open>source[pos]\<close> and increments \<open>pos\<close>, so the pair of \<open>source\<close> and \<open>pos\<close> is kept as the
  unread suffix \<open>source.slice(pos)\<close> in the field \<open>rest\<close>. A character returned by
  \<open>peek\<close> or \<open>advance\<close> is a string of length one, or the empty string at the end of the
  input, as in the source.
\<close>

record Tokenizer =
  rest :: string
  line :: nat
  column :: nat

definition peek :: "Tokenizer \<Rightarrow> string" where
  "peek t = take 1 (rest t)"

definition advance :: "Tokenizer \<Rightarrow> string \<times> Tokenizer" where
  "advance t =
     (let char = take 1 (rest t);
          t1 = t\<lparr>rest := drop 1 (rest t)\<rparr>
      in if char = [CHR 0x0A]
         then (char, t1\<lparr>line := line t + 1, column := 1\<rparr>)
         else (char, t1\<lparr>column := column t + 1\<rparr>))"

definition isAtEnd :: "Tokenizer \<Rightarrow> bool" where
  "isAtEnd t = (rest t = [])"

lemma advance_rest [simp]: "rest (snd (advance t)) = drop 1 (rest t)"
  by (simp add: advance_def Let_def)

lemma advance_fst [simp]: "fst (advance t) = take 1 (rest t)"
  by (simp add: advance_def Let_def)

function readExtendedCommand_loop :: "string \<Rightarrow> Tokenizer \<Rightarrow> string \<times> Tokenizer" where
  "readExtendedCommand_loop val t =
     (if isAtEnd t then (val, t)
      else (let char = fst (advance t); t' = snd (advance t)
            in if char = ''%'' then (val, t')
               else readExtendedCommand_loop (val @ char) t'))"
  by pat_completeness auto
termination
  by (relation "measure (\<lambda>(v, t). length (rest t))") (auto simp: isAtEnd_def)

definition readExtendedCommand :: "Tokenizer \<Rightarrow> Token \<times> Tokenizer" where
  "readExtendedCommand t =
     (let startLine = line t;
          startColumn = column t;
          t1 = snd (advance t);
          (val, t2) = readExtendedCommand_loop [] t1
      in (\<lparr>tok_type = EXTENDED_COMMAND, tok_value = val,
           tok_line = startLine, tok_column = startColumn\<rparr>, t2))"

function readCommand_loop :: "string \<Rightarrow> Tokenizer \<Rightarrow> string \<times> Tokenizer" where
  "readCommand_loop val t =
     (if isAtEnd t then (val, t)
      else (let char = fst (advance t); t' = snd (advance t); val' = val @ char
            in if char = ''*'' then (val', t')
               else readCommand_loop val' t'))"
  by pat_completeness auto
termination
  by (relation "measure (\<lambda>(v, t). length (rest t))") (auto simp: isAtEnd_def)

definition readCommand :: "Tokenizer \<Rightarrow> Token \<times> Tokenizer" where
  "readCommand t =
     (let startLine = line t;
          startColumn = column t;
          (val, t1) = readCommand_loop [] t
      in (\<lparr>tok_type = COMMAND, tok_value = butlast val,
           tok_line = startLine, tok_column = startColumn\<rparr>, t1))"

function skipWhitespaceAndNewlines :: "Tokenizer \<Rightarrow> Tokenizer" where
  "skipWhitespaceAndNewlines t =
     (if isAtEnd t then t
      else (let char = peek t
            in if char = '' '' \<or> char = [CHR 0x09] \<or> char = [CHR 0x0D] \<or> char = [CHR 0x0A]
               then skipWhitespaceAndNewlines (snd (advance t))
               else t))"
  by pat_completeness auto
termination
  by (relation "measure (\<lambda>t. length (rest t))") (auto simp: isAtEnd_def)

declare readExtendedCommand_loop.simps [simp del]
declare readCommand_loop.simps [simp del]
declare skipWhitespaceAndNewlines.simps [simp del]

lemma readExtendedCommand_loop_length:
  "length (rest (snd (readExtendedCommand_loop val t))) \<le> length (rest t)"
proof (induction val t rule: readExtendedCommand_loop.induct)
  case (1 val t)
  show ?case
  proof (cases "isAtEnd t")
    case True
    then show ?thesis by (simp add: readExtendedCommand_loop.simps)
  next
    case False
    show ?thesis
    proof (cases "fst (advance t) = ''%''")
      case True
      with False show ?thesis
        by (simp add: readExtendedCommand_loop.simps[of val t] Let_def)
    next
      case notpct: False
      have "length (rest (snd (readExtendedCommand_loop (val @ fst (advance t)) (snd (advance t)))))
              \<le> length (rest (snd (advance t)))"
        using 1 False notpct by blast
      with False notpct show ?thesis
        by (simp add: readExtendedCommand_loop.simps[of val t] Let_def)
    qed
  qed
qed

lemma readCommand_loop_length:
  "\<not> isAtEnd t \<Longrightarrow> length (rest (snd (readCommand_loop val t))) < length (rest t)"
proof (induction val t rule: readCommand_loop.induct)
  case (1 val t)
  from "1.prems" have ne: "rest t \<noteq> []" by (simp add: isAtEnd_def)
  show ?case
  proof (cases "fst (advance t) = ''*''")
    case True
    with "1.prems" ne show ?thesis
      by (simp add: readCommand_loop.simps[of val t] Let_def)
  next
    case False
    show ?thesis
    proof (cases "isAtEnd (snd (advance t))")
      case True
      with "1.prems" False ne show ?thesis
        by (simp add: readCommand_loop.simps[of val t]
            readCommand_loop.simps[of _ "snd (advance t)"] Let_def)
    next
      case notend: False
      have "length (rest (snd (readCommand_loop (val @ fst (advance t)) (snd (advance t)))))
              < length (rest (snd (advance t)))"
        using "1.IH" "1.prems" False notend by blast
      with "1.prems" False show ?thesis
        by (simp add: readCommand_loop.simps[of val t] Let_def)
    qed
  qed
qed

lemma skipWhitespaceAndNewlines_length:
  "length (rest (skipWhitespaceAndNewlines t)) \<le> length (rest t)"
proof (induction t rule: skipWhitespaceAndNewlines.induct)
  case (1 t)
  show ?case
  proof (cases "isAtEnd t \<or> \<not> (peek t = '' '' \<or> peek t = [CHR 0x09] \<or> peek t = [CHR 0x0D]
                   \<or> peek t = [CHR 0x0A])")
    case True
    then show ?thesis
      by (auto simp: skipWhitespaceAndNewlines.simps[of t] Let_def)
  next
    case False
    then have "length (rest (skipWhitespaceAndNewlines (snd (advance t))))
                 \<le> length (rest (snd (advance t)))"
      using 1 by blast
    with False show ?thesis
      by (simp add: skipWhitespaceAndNewlines.simps[of t] Let_def)
  qed
qed

lemma readExtendedCommand_length:
  "\<not> isAtEnd t \<Longrightarrow> length (rest (snd (readExtendedCommand t))) < length (rest t)"
proof -
  assume ne: "\<not> isAtEnd t"
  have "length (rest (snd (readExtendedCommand_loop [] (snd (advance t)))))
          \<le> length (rest (snd (advance t)))"
    by (rule readExtendedCommand_loop_length)
  with ne show ?thesis
    by (cases "rest t") (auto simp: readExtendedCommand_def Let_def isAtEnd_def split: prod.splits)
qed

lemma readCommand_length:
  "\<not> isAtEnd t \<Longrightarrow> length (rest (snd (readCommand t))) < length (rest t)"
  using readCommand_loop_length[of t "[]"]
  by (auto simp: readCommand_def Let_def split: prod.splits)

function tokenize_loop :: "Token list \<Rightarrow> Tokenizer \<Rightarrow> Token list \<times> Tokenizer" where
  "tokenize_loop tokens t =
     (if isAtEnd t then (tokens, t)
      else (let t1 = skipWhitespaceAndNewlines t
            in if isAtEnd t1 then (tokens, t1)
               else (let char = peek t1
                     in if char = ''%''
                        then tokenize_loop (tokens @ [fst (readExtendedCommand t1)])
                               (snd (readExtendedCommand t1))
                        else tokenize_loop (tokens @ [fst (readCommand t1)])
                               (snd (readCommand t1)))))"
  by pat_completeness auto
termination
proof (relation "measure (\<lambda>(ts, t). length (rest t))", goal_cases)
  case 1
  show ?case by simp
next
  case (2 tokens t t1 char)
  then show ?case
    using readExtendedCommand_length[of t1] skipWhitespaceAndNewlines_length[of t]
    by simp
next
  case (3 tokens t t1 char)
  then show ?case
    using readCommand_length[of t1] skipWhitespaceAndNewlines_length[of t]
    by simp
qed

declare tokenize_loop.simps [simp del]

definition tokenize :: "string \<Rightarrow> Token list" where
  "tokenize source =
     (let (tokens, t) = tokenize_loop [] \<lparr>rest = source, line = 1, column = 1\<rparr>
      in tokens @ [\<lparr>tok_type = EOF, tok_value = [], tok_line = line t, tok_column = column t\<rparr>])"

section \<open>Numbers\<close>

text \<open>
  JavaScript has one number type. The fields the parser fills with \<open>parseInt(_, 10)\<close>
  (aperture codes, digit counts, coordinates, repeat counts) are integers and are modelled
  by \<open>int\<close>: \<open>parseInt\<close> is only ever applied to a regular-expression capture of the form
  \<open>[+-]?\d+\<close>, whose value it returns, exactly for literals below \<open>2^53\<close> (on the empty
  string, which no call passes, the model gives 0). An integer is printed in decimal, as
  JavaScript prints it below \<open>10^21\<close>.

  The fields filled with \<open>parseFloat\<close> (aperture parameters, rotation, scaling, step and
  offset distances) are doubles. Neither \<open>parseFloat\<close> nor the printing of a double belongs
  to this repository; the node type is polymorphic in the type \<open>'n\<close> of these numbers, the
  parser takes \<open>parseFloat\<close> as its parameter \<open>pf\<close> and the serializer takes the
  number-to-string conversion as its parameter \<open>ns\<close>. The number \<open>0\<close> that the source
  writes as a default is the \<open>0\<close> of \<open>'n\<close>.

  Where a statement needs a parser without a parameter, \<open>pf\<close> is the constructor
  \<open>ParseFloat\<close> of the type \<open>number\<close> below, which leaves \<open>parseFloat\<close> uninterpreted: the
  number is represented by the text it is parsed from (and \<open>0\<close> by \<open>Zero\<close>).
\<close>

datatype number = ParseFloat string | Zero

instantiation number :: zero
begin

definition zero_number :: number where
  "zero_number = Zero"

instance ..

end

definition digitVal :: "char \<Rightarrow> nat" where
  "digitVal c = of_char c - 48"

definition parseNat :: "string \<Rightarrow> nat" where
  "parseNat s = foldl (\<lambda>a c. 10 * a + digitVal c) 0 s"

definition parseInt :: "string \<Rightarrow> int" where
  "parseInt s =
     (case s of
        [] \<Rightarrow> 0
      | c # ds \<Rightarrow>
          if c = CHR ''-'' then - int (parseNat ds)
          else if c = CHR ''+'' then int (parseNat ds)
          else int (parseNat s))"

definition digitChar :: "nat \<Rightarrow> char" where
  "digitChar n = char_of (48 + n)"

fun showNat :: "nat \<Rightarrow> string" where
  "showNat n = (if n < 10 then [digitChar n] else showNat (n div 10) @ [digitChar (n mod 10)])"

declare showNat.simps [simp del]

definition showInt :: "int \<Rightarrow> string" where
  "showInt k = (if k < 0 then CHR ''-'' # showNat (nat (- k)) else showNat (nat k))"

section \<open>Regular expressions\<close>

text \<open>
  The parser recognises commands with regular-expression literals. They use character
  classes, sequencing, the greedy quantifiers \<open>?\<close>, \<open>*\<close> and \<open>+\<close>, capture groups and the
  anchors \<open>^\<close> and \<open>$\<close>. \<open>rmatch r g s\<close> lists, in the order in which a backtracking
  matcher tries them, the ways \<open>r\<close> can match a prefix of \<open>s\<close>: each is the captures so far
  and the input left. A greedy quantifier tries the longer match first, and a repetition
  stops at an iteration that consumes nothing. \<open>s.match(r)\<close> is the first way at the
  leftmost position that has one; a group that took no part in it is \<open>undefined\<close>, here
  \<open>None\<close>.
\<close>

datatype regex =
    Eps
  | OneOf string
  | NoneOf string
  | Seq regex regex
  | Opt regex
  | Star regex
  | Group nat regex
  | EndOfInput

type_synonym captures = "(nat \<times> string) list"

fun rmatch :: "regex \<Rightarrow> captures \<Rightarrow> string \<Rightarrow> (captures \<times> string) list" where
  "rmatch Eps g s = [(g, s)]"
| "rmatch (OneOf cs) g s =
     (case s of [] \<Rightarrow> [] | c # s' \<Rightarrow> if c \<in> set cs then [(g, s')] else [])"
| "rmatch (NoneOf cs) g s =
     (case s of [] \<Rightarrow> [] | c # s' \<Rightarrow> if c \<notin> set cs then [(g, s')] else [])"
| "rmatch (Seq a b) g s = concat (map (\<lambda>(g', s'). rmatch b g' s') (rmatch a g s))"
| "rmatch (Opt a) g s = rmatch a g s @ [(g, s)]"
| "rmatch (Star a) g s =
     concat (map (\<lambda>(g', s'). if length s' < length s then rmatch (Star a) g' s' else [])
               (rmatch a g s)) @ [(g, s)]"
| "rmatch (Group k a) g s =
     map (\<lambda>(g', s'). ((k, take (length s - length s') s) # g', s')) (rmatch a g s)"
| "rmatch EndOfInput g s = (if s = [] then [(g, s)] else [])"

definition matchStart :: "regex \<Rightarrow> string \<Rightarrow> (captures \<times> string) option" where
  "matchStart r s = (case rmatch r [] s of [] \<Rightarrow> None | m # _ \<Rightarrow> Some m)"

fun search :: "regex \<Rightarrow> string \<Rightarrow> (captures \<times> string) option" where
  "search r [] = matchStart r []"
| "search r (c # s) =
     (case matchStart r (c # s) of Some m \<Rightarrow> Some m | None \<Rightarrow> search r s)"

definition group :: "captures \<times> string \<Rightarrow> nat \<Rightarrow> string option" where
  "group m k = map_of (fst m) k"

definition theGroup :: "captures \<times> string \<Rightarrow> nat \<Rightarrow> string" where
  "theGroup m k = (case group m k of Some v \<Rightarrow> v | None \<Rightarrow> [])"

fun lit :: "string \<Rightarrow> regex" where
  "lit [] = Eps"
| "lit (c # cs) = Seq (OneOf [c]) (lit cs)"

fun seqs :: "regex list \<Rightarrow> regex" where
  "seqs [] = Eps"
| "seqs (r # rs) = Seq r (seqs rs)"

definition plus :: "regex \<Rightarrow> regex" where
  "plus r = Seq r (Star r)"

definition digit :: regex where
  "digit = OneOf ''0123456789''"

definition sign :: regex where
  "sign = OneOf ''+-''"

definition identStart :: regex where
  "identStart = OneOf ''ABCDEFGHIJKLMNOPQRSTUVWXYZabcdefghijklmnopqrstuvwxyz_''"

definition identChar :: regex where
  "identChar = OneOf ''ABCDEFGHIJKLMNOPQRSTUVWXYZabcdefghijklmnopqrstuvwxyz0123456789_''"

text \<open>\<open>.\<close> matches any character but a line terminator; \<open>\s\<close> matches white space
  (tab, line feed, vertical tab, form feed, carriage return, space, no-break space).\<close>

definition anyChar :: regex where
  "anyChar = NoneOf [CHR 0x0A, CHR 0x0D]"

definition whiteSpace :: regex where
  "whiteSpace = OneOf [CHR 0x09, CHR 0x0A, CHR 0x0B, CHR 0x0C, CHR 0x0D, CHR 0x20, CHR 0xA0]"

section \<open>Nodes and their serialization (src/lib/ast)\<close>

text \<open>
  The class hierarchy below \<open>GerberNode\<close> is a datatype with one constructor per class.
  The three subclasses \<open>Interpolate\<close>, \<open>Move\<close> and \<open>Flash\<close> of the abstract class
  \<open>Operation\<close> differ only in the constant \<open>dcode\<close>, so an operation is the constructor
  \<open>Operation\<close> applied to its d-code and the optional fields \<open>x\<close>, \<open>y\<close>, \<open>i\<close>, \<open>j\<close>
  (\<open>None\<close> is \<open>undefined\<close>). The TypeScript unions of string literals (\<open>Unit\<close>,
  \<open>Polarity\<close>, \<open>InterpolationMode\<close>, ...) are not checked when the program runs: the
  field holds whatever string the parser cut out, and is a string here.
\<close>

datatype DCode = D01 | D02 | D03

record FormatSpec =
  zeroOmission :: string
  coordinateMode :: string
  xIntegerDigits :: int
  xDecimalDigits :: int
  yIntegerDigits :: int
  yDecimalDigits :: int

datatype 'n GerberNode =
    FormatSpecification FormatSpec
  | UnitMode string
  | ApertureDefinition int string "'n list"
  | ApertureMacro string string
  | LoadPolarity string
  | LoadMirroring string
  | LoadRotation 'n
  | LoadScaling 'n
  | StepRepeat int int 'n 'n
  | FileAttribute string "string list"
  | ApertureAttribute string "string list"
  | ObjectAttribute string "string list"
  | DeleteAttribute "string option"
  | SetInterpolationMode string
  | Comment string
  | RegionStart
  | RegionEnd
  | Operation DCode "int option" "int option" "int option" "int option"
  | SelectAperture int
  | EndOfFile
  | SetImagePolarity string
  | SetOffset 'n 'n
  | UnknownCommand string

text \<open>The field \<open>type\<close> of a node: each class sets it to its own name.\<close>

fun nodeType :: "'n GerberNode \<Rightarrow> string" where
  "nodeType (FormatSpecification f) = ''FormatSpecification''"
| "nodeType (UnitMode u) = ''UnitMode''"
| "nodeType (ApertureDefinition code template params) = ''ApertureDefinition''"
| "nodeType (ApertureMacro name content) = ''ApertureMacro''"
| "nodeType (LoadPolarity p) = ''LoadPolarity''"
| "nodeType (LoadMirroring m) = ''LoadMirroring''"
| "nodeType (LoadRotation a) = ''LoadRotation''"
| "nodeType (LoadScaling s) = ''LoadScaling''"
| "nodeType (StepRepeat x y i j) = ''StepRepeat''"
| "nodeType (FileAttribute name vals) = ''FileAttribute''"
| "nodeType (ApertureAttribute name vals) = ''ApertureAttribute''"
| "nodeType (ObjectAttribute name vals) = ''ObjectAttribute''"
| "nodeType (DeleteAttribute name) = ''DeleteAttribute''"
| "nodeType (SetInterpolationMode mode) = ''SetInterpolationMode''"
| "nodeType (Comment t) = ''Comment''"
| "nodeType RegionStart = ''RegionStart''"
| "nodeType RegionEnd = ''RegionEnd''"
| "nodeType (Operation D01 x y i j) = ''Interpolate''"
| "nodeType (Operation D02 x y i j) = ''Move''"
| "nodeType (Operation D03 x y i j) = ''Flash''"
| "nodeType (SelectAperture code) = ''SelectAperture''"
| "nodeType EndOfFile = ''EndOfFile''"
| "nodeType (SetImagePolarity p) = ''SetImagePolarity''"
| "nodeType (SetOffset a b) = ''SetOffset''"
| "nodeType (UnknownCommand raw) = ''UnknownCommand''"

datatype error = Error string

record FormatSpecInit =
  init_zeroOmission :: "string option"
  init_coordinateMode :: "string option"
  init_xIntegerDigits :: "int option"
  init_xDecimalDigits :: "int option"
  init_yIntegerDigits :: "int option"
  init_yDecimalDigits :: "int option"

definition orElse :: "'a option \<Rightarrow> 'a \<Rightarrow> 'a" where
  "orElse v d = (case v of Some a \<Rightarrow> a | None \<Rightarrow> d)"

definition new_FormatSpecification :: "FormatSpecInit \<Rightarrow> 'n GerberNode" where
  "new_FormatSpecification init =
     FormatSpecification
       \<lparr>zeroOmission = orElse (init_zeroOmission init) ''L'',
        coordinateMode = orElse (init_coordinateMode init) ''A'',
        xIntegerDigits = orElse (init_xIntegerDigits init) 2,
        xDecimalDigits = orElse (init_xDecimalDigits init) 6,
        yIntegerDigits = orElse (init_yIntegerDigits init) 2,
        yDecimalDigits = orElse (init_yDecimalDigits init) 6\<rparr>"

definition createOperation ::
  "DCode \<Rightarrow> int option \<Rightarrow> int option \<Rightarrow> int option \<Rightarrow> int option \<Rightarrow> 'n GerberNode" where
  "createOperation dcode x y i j = Operation dcode x y i j"

text \<open>The constructor of \<open>SelectAperture\<close> is the only one that can throw.\<close>

definition new_SelectAperture :: "int \<Rightarrow> error + 'n GerberNode" where
  "new_SelectAperture code =
     (if code < 10 then Inl (Error (''Aperture code must be >= 10, got '' @ showInt code))
      else Inr (SelectAperture code))"

fun showDCode :: "DCode \<Rightarrow> string" where
  "showDCode D01 = ''D01''"
| "showDCode D02 = ''D02''"
| "showDCode D03 = ''D03''"

definition attributeString :: "string \<Rightarrow> string \<Rightarrow> string list \<Rightarrow> string" where
  "attributeString prefix name vals =
     (let valuesStr = (if length vals > 0 then '','' @ join '','' vals else [])
      in prefix @ name @ valuesStr @ ''*%'')"

fun getString :: "('n \<Rightarrow> string) \<Rightarrow> ('n::zero) GerberNode \<Rightarrow> string" where
  "getString ns (FormatSpecification f) =
     ''%FS'' @ zeroOmission f @ coordinateMode f
       @ ''X'' @ showInt (xIntegerDigits f) @ showInt (xDecimalDigits f)
       @ ''Y'' @ showInt (yIntegerDigits f) @ showInt (yDecimalDigits f) @ ''*%''"
| "getString ns (UnitMode unit) = ''%MO'' @ unit @ ''*%''"
| "getString ns (ApertureDefinition code template params) =
     (let paramsStr = (if length params > 0 then '','' @ join ''X'' (map ns params) else [])
      in ''%ADD'' @ showInt code @ template @ paramsStr @ ''*%'')"
| "getString ns (ApertureMacro name content) = ''%AM'' @ name @ ''*'' @ content @ ''%''"
| "getString ns (LoadPolarity polarity) = ''%LP'' @ polarity @ ''*%''"
| "getString ns (LoadMirroring mirroring) = ''%LM'' @ mirroring @ ''*%''"
| "getString ns (LoadRotation angle) = ''%LR'' @ ns angle @ ''*%''"
| "getString ns (LoadScaling scale) = ''%LS'' @ ns scale @ ''*%''"
| "getString ns (StepRepeat x y i j) =
     (if x = 1 \<and> y = 1 \<and> i = 0 \<and> j = 0 then ''%SR*%''
      else ''%SRX'' @ showInt x @ ''Y'' @ showInt y @ ''I'' @ ns i @ ''J'' @ ns j @ ''*%'')"
| "getString ns (FileAttribute name vals) = attributeString ''%TF.'' name vals"
| "getString ns (ApertureAttribute name vals) = attributeString ''%TA.'' name vals"
| "getString ns (ObjectAttribute name vals) = attributeString ''%TO.'' name vals"
| "getString ns (DeleteAttribute name) =
     (case name of
        Some n \<Rightarrow> if n \<noteq> [] then ''%TD.'' @ n @ ''*%'' else ''%TD*%''
      | None \<Rightarrow> ''%TD*%'')"
| "getString ns (SetInterpolationMode mode) = mode @ ''*''"
| "getString ns (Comment text) = ''G04 '' @ text @ ''*''"
| "getString ns RegionStart = ''G36*''"
| "getString ns RegionEnd = ''G37*''"
| "getString ns (Operation dcode x y i j) =
     (case x of Some v \<Rightarrow> ''X'' @ showInt v | None \<Rightarrow> [])
     @ (case y of Some v \<Rightarrow> ''Y'' @ showInt v | None \<Rightarrow> [])
     @ (case i of Some v \<Rightarrow> ''I'' @ showInt v | None \<Rightarrow> [])
     @ (case j of Some v \<Rightarrow> ''J'' @ showInt v | None \<Rightarrow> [])
     @ showDCode dcode @ ''*''"
| "getString ns (SelectAperture code) = ''D'' @ showInt code @ ''*''"
| "getString ns EndOfFile = ''M02*''"
| "getString ns (SetImagePolarity polarity) = ''%IP'' @ polarity @ ''*%''"
| "getString ns (SetOffset a b) = ''%OFA'' @ ns a @ ''B'' @ ns b @ ''*%''"
| "getString ns (UnknownCommand raw) = raw"

section \<open>Parser (src/lib/parser/parser.ts)\<close>

subsection \<open>The regular expressions of the parser\<close>

text \<open>Each constant is the literal named in its comment; \<open>^\<close> is the use of
  \<open>matchStart\<close> instead of \<open>search\<close>, \<open>$\<close> is \<open>EndOfInput\<close>.\<close>

definition re_digit_pair :: "char \<Rightarrow> regex" where \<comment> \<open>\<open>/X(\d)(\d)/\<close>, \<open>/Y(\d)(\d)/\<close>\<close>
  "re_digit_pair c = seqs [lit [c], Group 1 digit, Group 2 digit]"

definition re_aperture_definition :: regex where
  \<comment> \<open>\<open>/^ADD(\d+)([A-Za-z_][A-Za-z0-9_]*)(?:,(.*))?$/\<close>\<close>
  "re_aperture_definition =
     seqs [lit ''ADD'', Group 1 (plus digit), Group 2 (Seq identStart (Star identChar)),
           Opt (Seq (lit '','') (Group 3 (Star anyChar))), EndOfInput]"

definition re_count :: "char \<Rightarrow> regex" where \<comment> \<open>\<open>/X(\d+)/\<close>, \<open>/Y(\d+)/\<close>\<close>
  "re_count c = seqs [lit [c], Group 1 (plus digit)]"

definition re_decimal :: "char \<Rightarrow> regex" where
  \<comment> \<open>\<open>/I([+-]?\d*\.?\d+)/\<close>, and the same with \<open>J\<close>, \<open>A\<close>, \<open>B\<close>\<close>
  "re_decimal c = seqs [lit [c], Group 1 (seqs [Opt sign, Star digit, Opt (lit ''.''), plus digit])]"

definition re_comment_prefix :: regex where \<comment> \<open>\<open>/^G0?4\s*/\<close>\<close>
  "re_comment_prefix = seqs [lit ''G'', Opt (lit ''0''), lit ''4'', Star whiteSpace]"

definition re_aperture :: regex where \<comment> \<open>\<open>/^D(\d+)$/\<close>\<close>
  "re_aperture = seqs [lit ''D'', Group 1 (plus digit), EndOfInput]"

definition coordGroup :: "nat \<Rightarrow> char \<Rightarrow> regex" where \<comment> \<open>\<open>(X[+-]?\d+)?\<close>\<close>
  "coordGroup k c = Opt (Group k (seqs [lit [c], Opt sign, plus digit]))"

definition re_dcode :: regex where \<comment> \<open>\<open>D0?[123]\<close>\<close>
  "re_dcode = seqs [lit ''D'', Opt (lit ''0''), OneOf ''123'']"

definition re_operation :: regex where
  \<comment> \<open>\<open>/^(X[+-]?\d+)?(Y[+-]?\d+)?(I[+-]?\d+)?(J[+-]?\d+)?(D0?[123])$/\<close>\<close>
  "re_operation =
     seqs [coordGroup 1 CHR ''X'', coordGroup 2 CHR ''Y'', coordGroup 3 CHR ''I'',
           coordGroup 4 CHR ''J'', Group 5 re_dcode, EndOfInput]"

definition re_gcode_prefix :: regex where \<comment> \<open>\<open>/^G0?[123]/\<close>\<close>
  "re_gcode_prefix = seqs [lit ''G'', Opt (lit ''0''), OneOf ''123'']"

definition re_gcode_operation :: regex where
  \<comment> \<open>\<open>/^G0?[123](X[+-]?\d+)?(Y[+-]?\d+)?(I[+-]?\d+)?(J[+-]?\d+)?(D0?[123])?$/\<close>\<close>
  "re_gcode_operation =
     seqs [re_gcode_prefix, coordGroup 1 CHR ''X'', coordGroup 2 CHR ''Y'',
           coordGroup 3 CHR ''I'', coordGroup 4 CHR ''J'', Opt (Group 5 re_dcode), EndOfInput]"

definition re_coord :: "char \<Rightarrow> regex" where \<comment> \<open>\<open>/X([+-]?\d+)/\<close>, and \<open>Y\<close>, \<open>I\<close>, \<open>J\<close>\<close>
  "re_coord c = seqs [lit [c], Group 1 (Seq (Opt sign) (plus digit))]"

definition re_dcode_digit :: regex where \<comment> \<open>\<open>/D0?([123])/\<close>\<close>
  "re_dcode_digit = seqs [lit ''D'', Opt (lit ''0''), Group 1 (OneOf ''123'')]"

definition re_gcode_digit :: regex where \<comment> \<open>\<open>/^G0?([123])/\<close>\<close>
  "re_gcode_digit = seqs [lit ''G'', Opt (lit ''0''), Group 1 (OneOf ''123'')]"

text \<open>\<open>s.replace(r, "")\<close> for a regular expression anchored at the start.\<close>

definition removeStart :: "regex \<Rightarrow> string \<Rightarrow> string" where
  "removeStart r s = (case matchStart r s of Some m \<Rightarrow> snd m | None \<Rightarrow> s)"

definition charAt :: "string \<Rightarrow> nat \<Rightarrow> string option" where
  "charAt s k = (if k < length s then Some [s ! k] else None)"

subsection \<open>Extended commands\<close>

definition parseFormatSpec :: "string \<Rightarrow> 'n GerberNode" where
  "parseFormatSpec content =
     (let rest = drop 2 content;
          zeroOmission = charAt rest 0;
          coordinateMode = charAt rest 1;
          xMatch = search (re_digit_pair CHR ''X'') rest;
          yMatch = search (re_digit_pair CHR ''Y'') rest
      in new_FormatSpecification
           \<lparr>init_zeroOmission = zeroOmission,
            init_coordinateMode = coordinateMode,
            init_xIntegerDigits =
              Some (case xMatch of Some m \<Rightarrow> parseInt (theGroup m 1) | None \<Rightarrow> 2),
            init_xDecimalDigits =
              Some (case xMatch of Some m \<Rightarrow> parseInt (theGroup m 2) | None \<Rightarrow> 6),
            init_yIntegerDigits =
              Some (case yMatch of Some m \<Rightarrow> parseInt (theGroup m 1) | None \<Rightarrow> 2),
            init_yDecimalDigits =
              Some (case yMatch of Some m \<Rightarrow> parseInt (theGroup m 2) | None \<Rightarrow> 6)\<rparr>)"

definition parseApertureDefinition :: "(string \<Rightarrow> 'n) \<Rightarrow> string \<Rightarrow> 'n GerberNode" where
  "parseApertureDefinition pf content =
     (case matchStart re_aperture_definition content of
        None \<Rightarrow> ApertureDefinition 10 ''C'' []
      | Some m \<Rightarrow>
          (let code = parseInt (theGroup m 1);
               template = theGroup m 2;
               paramsStr = group m 3;
               params = (case paramsStr of
                           Some p \<Rightarrow> if p \<noteq> [] then map pf (split CHR ''X'' p) else []
                         | None \<Rightarrow> [])
           in ApertureDefinition code template params))"

definition parseApertureMacro :: "string \<Rightarrow> 'n GerberNode" where
  "parseApertureMacro content =
     (case indexOf CHR ''*'' content of
        None \<Rightarrow> ApertureMacro (drop 2 content) []
      | Some firstStar \<Rightarrow>
          (let name = take (firstStar - 2) (drop 2 content);
               macroContent = drop (firstStar + 1) content
           in ApertureMacro name
                (if endsWith ''*'' macroContent then butlast macroContent else macroContent)))"

definition parseStepRepeat :: "(string \<Rightarrow> 'n) \<Rightarrow> string \<Rightarrow> ('n::zero) GerberNode" where
  "parseStepRepeat pf content =
     (let rest = drop 2 content
      in if rest = [] then StepRepeat 1 1 0 0
         else (let xMatch = search (re_count CHR ''X'') rest;
                   yMatch = search (re_count CHR ''Y'') rest;
                   iMatch = search (re_decimal CHR ''I'') rest;
                   jMatch = search (re_decimal CHR ''J'') rest
               in StepRepeat
                    (case xMatch of Some m \<Rightarrow> parseInt (theGroup m 1) | None \<Rightarrow> 1)
                    (case yMatch of Some m \<Rightarrow> parseInt (theGroup m 1) | None \<Rightarrow> 1)
                    (case iMatch of Some m \<Rightarrow> pf (theGroup m 1) | None \<Rightarrow> 0)
                    (case jMatch of Some m \<Rightarrow> pf (theGroup m 1) | None \<Rightarrow> 0)))"

definition parseAttribute ::
  "string \<Rightarrow> string \<Rightarrow> (string \<Rightarrow> string list \<Rightarrow> 'n GerberNode) \<Rightarrow> 'n GerberNode" where
  "parseAttribute content prefix Ctor =
     (let rest = drop (length prefix) content;
          parts = split CHR '','' rest;
          name = (case parts of p # _ \<Rightarrow> p | [] \<Rightarrow> []);
          vals = drop 1 parts
      in Ctor name vals)"

definition parseExtendedCommand :: "(string \<Rightarrow> 'n) \<Rightarrow> string \<Rightarrow> ('n::zero) GerberNode" where
  "parseExtendedCommand pf val =
     (let content = (if endsWith ''*'' val then butlast val else val)
      in if startsWith ''FS'' content then parseFormatSpec content
         else if startsWith ''MO'' content then UnitMode (drop 2 content)
         else if startsWith ''AD'' content then parseApertureDefinition pf content
         else if startsWith ''AM'' content then parseApertureMacro content
         else if startsWith ''LP'' content then LoadPolarity (drop 2 content)
         else if startsWith ''LM'' content then LoadMirroring (drop 2 content)
         else if startsWith ''LR'' content then LoadRotation (pf (drop 2 content))
         else if startsWith ''LS'' content then LoadScaling (pf (drop 2 content))
         else if startsWith ''SR'' content then parseStepRepeat pf content
         else if startsWith ''TF.'' content then parseAttribute content ''TF.'' FileAttribute
         else if startsWith ''TA.'' content then parseAttribute content ''TA.'' ApertureAttribute
         else if startsWith ''TO.'' content then parseAttribute content ''TO.'' ObjectAttribute
         else if startsWith ''TD'' content
           then (let rest = drop 2 content
                 in if startsWith ''.'' rest then DeleteAttribute (Some (drop 1 rest))
                    else DeleteAttribute None)
         else if startsWith ''IP'' content then SetImagePolarity (drop 2 content)
         else if startsWith ''OF'' content
           then (let aMatch = search (re_decimal CHR ''A'') content;
                     bMatch = search (re_decimal CHR ''B'') content
                 in SetOffset
                      (case aMatch of Some m \<Rightarrow> pf (theGroup m 1) | None \<Rightarrow> 0)
                      (case bMatch of Some m \<Rightarrow> pf (theGroup m 1) | None \<Rightarrow> 0))
         else UnknownCommand (''%'' @ val @ ''%''))"

subsection \<open>Commands\<close>

text \<open>The digit handed to \<open>toDCode\<close> is a capture of the class \<open>[123]\<close>, or the default
  \<open>"1"\<close>; the d-code is \<open>D0\<close> followed by it.\<close>

definition toDCode :: "string \<Rightarrow> DCode" where
  "toDCode d = (if d = ''1'' then D01 else if d = ''2'' then D02 else D03)"

definition coordOf :: "(captures \<times> string) option \<Rightarrow> int option" where
  "coordOf mt = (case mt of Some m \<Rightarrow> Some (parseInt (theGroup m 1)) | None \<Rightarrow> None)"

definition parseOperation :: "string \<Rightarrow> 'n GerberNode" where
  "parseOperation val =
     (let xMatch = search (re_coord CHR ''X'') val;
          yMatch = search (re_coord CHR ''Y'') val;
          iMatch = search (re_coord CHR ''I'') val;
          jMatch = search (re_coord CHR ''J'') val;
          dMatch = search re_dcode_digit val;
          dcode = toDCode (case dMatch of Some m \<Rightarrow> orElse (group m 1) ''1'' | None \<Rightarrow> ''1'')
      in createOperation dcode (coordOf xMatch) (coordOf yMatch) (coordOf iMatch) (coordOf jMatch))"

definition parseGCodeOperation :: "string \<Rightarrow> 'n GerberNode" where
  "parseGCodeOperation val =
     (let gMatch = matchStart re_gcode_digit val;
          mode = ''G0'' @ (case gMatch of
                             Some m \<Rightarrow> orElse (group m 1) ''undefined''
                           | None \<Rightarrow> ''undefined'');
          rest = removeStart re_gcode_prefix val
      in if rest = [] then SetInterpolationMode mode
         else (let xMatch = search (re_coord CHR ''X'') rest;
                   yMatch = search (re_coord CHR ''Y'') rest;
                   iMatch = search (re_coord CHR ''I'') rest;
                   jMatch = search (re_coord CHR ''J'') rest;
                   dMatch = search re_dcode_digit rest
               in case dMatch of
                    Some m \<Rightarrow>
                      createOperation (toDCode (theGroup m 1))
                        (coordOf xMatch) (coordOf yMatch) (coordOf iMatch) (coordOf jMatch)
                  | None \<Rightarrow> SetInterpolationMode mode))"

text \<open>In \<open>parseCommand\<close> the constructor of \<open>SelectAperture\<close> is only called under the test
  \<open>code >= 10\<close>, where it does not throw.\<close>

definition parseCommand :: "string \<Rightarrow> 'n GerberNode" where
  "parseCommand val =
     (if startsWith ''G01'' val \<or> val = ''G1'' then SetInterpolationMode ''G01''
      else if startsWith ''G02'' val \<or> val = ''G2'' then SetInterpolationMode ''G02''
      else if startsWith ''G03'' val \<or> val = ''G3'' then SetInterpolationMode ''G03''
      else if startsWith ''G74'' val then SetInterpolationMode ''G74''
      else if startsWith ''G75'' val then SetInterpolationMode ''G75''
      else if startsWith ''G04'' val \<or> startsWith ''G4'' val
        then Comment (removeStart re_comment_prefix val)
      else if val = ''G36'' then RegionStart
      else if val = ''G37'' then RegionEnd
      else if val = ''M02'' \<or> val = ''M00'' \<or> val = ''M2'' \<or> val = ''M0'' then EndOfFile
      else (let apertureMatch = matchStart re_aperture val
            in if apertureMatch \<noteq> None \<and> parseInt (theGroup (the apertureMatch) 1) \<ge> 10
               then SelectAperture (parseInt (theGroup (the apertureMatch) 1))
               else if matchStart re_operation val \<noteq> None then parseOperation val
               else if matchStart re_gcode_operation val \<noteq> None then parseGCodeOperation val
               else UnknownCommand (val @ ''*'')))"

subsection \<open>The parse loop\<close>

definition parseToken :: "(string \<Rightarrow> 'n) \<Rightarrow> Token \<Rightarrow> ('n::zero) GerberNode option" where
  "parseToken pf token =
     (if tok_type token = EXTENDED_COMMAND then Some (parseExtendedCommand pf (tok_value token))
      else if tok_type token = COMMAND then Some (parseCommand (tok_value token))
      else None)"

text \<open>
  The class \<open>Parser\<close> holds the token array and an index \<open>pos\<close>; as in the tokenizer they
  are kept as the unread tokens. \<open>peek\<close> gives an \<open>EOF\<close> token beyond the array, so the
  loop of \<open>parse\<close> stops at the first \<open>EOF\<close> token or at the end of the array.
\<close>

fun parse_loop ::
  "(string \<Rightarrow> 'n) \<Rightarrow> ('n::zero) GerberNode list \<Rightarrow> Token list \<Rightarrow> 'n GerberNode list" where
  "parse_loop pf nodes [] = nodes"
| "parse_loop pf nodes (token # tokens) =
     (if tok_type token = EOF then nodes
      else (case parseToken pf token of
              Some node \<Rightarrow> parse_loop pf (nodes @ [node]) tokens
            | None \<Rightarrow> parse_loop pf nodes tokens))"

definition parseGerber :: "(string \<Rightarrow> 'n) \<Rightarrow> string \<Rightarrow> ('n::zero) GerberNode list" where
  "parseGerber pf source = parse_loop pf [] (tokenize source)"

subsection \<open>The entry points (src/lib/ast/GerberNode.ts, src/lib/GerberFile.ts)\<close>

definition GerberNode_parse :: "(string \<Rightarrow> 'n) \<Rightarrow> string \<Rightarrow> error + ('n::zero) GerberNode" where
  "GerberNode_parse pf source =
     (let nodes = parseGerber pf source
      in if length nodes = 0
           then Inl (Error (''Failed to parse Gerber command: '' @ source))
         else if length nodes > 1
           then Inl (Error (''Expected single command, got '' @ showNat (length nodes)
                            @ '': '' @ source))
         else Inr (nodes ! 0))"

record 'n GerberFile =
  commands :: "'n GerberNode list"

definition GerberFile_parse :: "(string \<Rightarrow> 'n) \<Rightarrow> string \<Rightarrow> ('n::zero) GerberFile" where
  "GerberFile_parse pf source = \<lparr>commands = parseGerber pf source\<rparr>"

definition GerberFile_getString :: "('n \<Rightarrow> string) \<Rightarrow> ('n::zero) GerberFile \<Rightarrow> string" where
  "GerberFile_getString ns file =
     join [CHR 0x0A] (map (getString ns) (commands file)) @ [CHR 0x0A]"

section \<open>Renderer (class GerberToSvg in src/lib/parser/parser.ts)\<close>

text \<open>
  The renderer computes with doubles. They are modelled by the real numbers, with exact
  arithmetic: rounding, \<open>NaN\<close> and overflow are outside the model. The bounding box
  starts at \<open>Infinity\<close> and \<open>-Infinity\<close>; a bound is \<open>None\<close> as long as it has this initial
  value, so that \<open>Math.min(Infinity, v)\<close> is \<open>v\<close>. The nodes rendered are the nodes whose
  numbers are reals.

  The renderer builds the output with template literals and never reads it back, but for
  the tests whether a string is empty. The value of a template literal is kept as the
  list of its parts, literal text and interpolated numbers not yet printed; it is empty
  exactly when the string is, since every literal of the renderer starts with text.
\<close>

datatype piece = Text string | Number real

type_synonym markup = "piece list"

record RenderOptions =
  opt_scale :: "real option"
  opt_strokeColor :: "string option"
  opt_fillColor :: "string option"
  opt_backgroundColor :: "string option"
  opt_padding :: "real option"

record Options =
  scaleFactor :: real
  strokeColor :: string
  fillColor :: string
  backgroundColor :: string
  padding :: real

record Aperture =
  ap_code :: int
  ap_template :: string
  ap_params :: "real list"

datatype Interpolation = Linear | CW | CCW

datatype PolarityState = Dark | Clear

record RenderState =
  state_x :: real
  state_y :: real
  aperture :: "Aperture option"
  interpolation :: Interpolation
  regionMode :: bool
  polarity :: PolarityState
  state_unit :: string
  formatSpec :: "FormatSpec option"

record Bounds =
  minX :: "real option"
  minY :: "real option"
  maxX :: "real option"
  maxY :: "real option"

record GerberToSvg =
  state :: RenderState
  apertures :: "int \<rightharpoonup> Aperture"
  paths :: "markup list"
  flashes :: "markup list"
  regionPath :: markup
  regions :: "markup list"
  bounds :: Bounds
  options :: Options

definition new_GerberToSvg :: "RenderOptions \<Rightarrow> GerberToSvg" where
  "new_GerberToSvg opts =
     \<lparr>state = \<lparr>state_x = 0, state_y = 0, aperture = None, interpolation = Linear,
               regionMode = False, polarity = Dark, state_unit = ''IN'', formatSpec = None\<rparr>,
      apertures = Map.empty,
      paths = [],
      flashes = [],
      regionPath = [],
      regions = [],
      bounds = \<lparr>minX = None, minY = None, maxX = None, maxY = None\<rparr>,
      options = \<lparr>scaleFactor = orElse (opt_scale opts) 1,
                 strokeColor = orElse (opt_strokeColor opts) ''#000'',
                 fillColor = orElse (opt_fillColor opts) ''#000'',
                 backgroundColor = orElse (opt_backgroundColor opts) ''none'',
                 padding = orElse (opt_padding opts) (1 / 10)\<rparr>\<rparr>"

definition updateBounds :: "real \<Rightarrow> real \<Rightarrow> GerberToSvg \<Rightarrow> GerberToSvg" where
  "updateBounds x y r =
     (let b = bounds r
      in r\<lparr>bounds :=
             \<lparr>minX = Some (case minX b of None \<Rightarrow> x | Some m \<Rightarrow> min m x),
              minY = Some (case minY b of None \<Rightarrow> y | Some m \<Rightarrow> min m y),
              maxX = Some (case maxX b of None \<Rightarrow> x | Some m \<Rightarrow> max m x),
              maxY = Some (case maxY b of None \<Rightarrow> y | Some m \<Rightarrow> max m y)\<rparr>\<rparr>)"

definition convertCoordinate :: "GerberToSvg \<Rightarrow> int \<Rightarrow> real" where
  "convertCoordinate r v =
     (case formatSpec (state r) of
        None \<Rightarrow> of_int v / 10000
      | Some f \<Rightarrow> (let decimalDigits = xDecimalDigits f in of_int v / 10 powi decimalDigits))"

definition getApertureWidth :: "GerberToSvg \<Rightarrow> real" where
  "getApertureWidth r =
     (case aperture (state r) of
        None \<Rightarrow> 1 / 100
      | Some ap \<Rightarrow> (case ap_params ap of [] \<Rightarrow> 1 / 100 | p # _ \<Rightarrow> p))"

text \<open>\<open>attr k v\<close> is the part \<open> k="v"\<close> of a template literal, with the space before it.\<close>

definition attr :: "string \<Rightarrow> piece \<Rightarrow> markup" where
  "attr k v = [Text ('' '' @ k @ ''='' @ [CHR 0x22]), v, Text [CHR 0x22]]"

definition createFlash :: "real \<Rightarrow> real \<Rightarrow> GerberToSvg \<Rightarrow> markup option \<times> GerberToSvg" where
  "createFlash x y r =
     (case aperture (state r) of
        None \<Rightarrow> (None, r)
      | Some ap \<Rightarrow>
          (let fill = fillColor (options r)
           in if ap_template ap = ''C'' then
                (let diameter = (case ap_params ap of [] \<Rightarrow> 1 / 100 | p # _ \<Rightarrow> p);
                     rad = diameter / 2;
                     r1 = updateBounds (x - rad) (y - rad) r;
                     r2 = updateBounds (x + rad) (y + rad) r1
                 in (Some (Text ''<circle'' # attr ''cx'' (Number x) @ attr ''cy'' (Number y)
                           @ attr ''r'' (Number rad) @ attr ''fill'' (Text fill) @ [Text ''/>'']),
                     r2))
              else if ap_template ap = ''R'' then
                (let width = (case ap_params ap of [] \<Rightarrow> 1 / 100 | p # _ \<Rightarrow> p);
                     height = (case drop 1 (ap_params ap) of [] \<Rightarrow> width | p # _ \<Rightarrow> p);
                     rx = x - width / 2;
                     ry = y - height / 2;
                     r1 = updateBounds rx ry r;
                     r2 = updateBounds (rx + width) (ry + height) r1
                 in (Some (Text ''<rect'' # attr ''x'' (Number rx) @ attr ''y'' (Number ry)
                           @ attr ''width'' (Number width) @ attr ''height'' (Number height)
                           @ attr ''fill'' (Text fill) @ [Text ''/>'']),
                     r2))
              else if ap_template ap = ''O'' then
                (let width = (case ap_params ap of [] \<Rightarrow> 1 / 100 | p # _ \<Rightarrow> p);
                     height = (case drop 1 (ap_params ap) of [] \<Rightarrow> width | p # _ \<Rightarrow> p);
                     radius = min width height / 2;
                     rx = x - width / 2;
                     ry = y - height / 2;
                     r1 = updateBounds rx ry r;
                     r2 = updateBounds (rx + width) (ry + height) r1
                 in (Some (Text ''<rect'' # attr ''x'' (Number rx) @ attr ''y'' (Number ry)
                           @ attr ''width'' (Number width) @ attr ''height'' (Number height)
                           @ attr ''rx'' (Number radius) @ attr ''ry'' (Number radius)
                           @ attr ''fill'' (Text fill) @ [Text ''/>'']),
                     r2))
              else
                (Some (Text ''<circle'' # attr ''cx'' (Number x) @ attr ''cy'' (Number y)
                       @ attr ''r'' (Text ''0.005'') @ attr ''fill'' (Text fill) @ [Text ''/>'']),
                 r)))"

definition handleOperation ::
  "DCode \<Rightarrow> int option \<Rightarrow> int option \<Rightarrow> GerberToSvg \<Rightarrow> GerberToSvg" where
  "handleOperation dcode op_x op_y r =
     (let newX = (case op_x of Some v \<Rightarrow> convertCoordinate r v | None \<Rightarrow> state_x (state r));
          newY = (case op_y of Some v \<Rightarrow> convertCoordinate r v | None \<Rightarrow> state_y (state r));
          r1 = updateBounds newX newY r;
          r2 =
            (case dcode of
               D01 \<Rightarrow>
                 if regionMode (state r1) then
                   (let r' = (if regionPath r1 = []
                              then r1\<lparr>regionPath := [Text ''M '', Number (state_x (state r1)),
                                                      Text '' '', Number (state_y (state r1))]\<rparr>
                              else r1)
                    in r'\<lparr>regionPath := regionPath r'
                           @ [Text '' L '', Number newX, Text '' '', Number newY]\<rparr>)
                 else if aperture (state r1) \<noteq> None then
                   (let strokeWidth = getApertureWidth r1
                    in r1\<lparr>paths := paths r1 @
                          [Text ''<line'' # attr ''x1'' (Number (state_x (state r1)))
                           @ attr ''y1'' (Number (state_y (state r1)))
                           @ attr ''x2'' (Number newX) @ attr ''y2'' (Number newY)
                           @ attr ''stroke'' (Text (strokeColor (options r1)))
                           @ attr ''stroke-width'' (Number strokeWidth)
                           @ attr ''stroke-linecap'' (Text ''round'') @ [Text ''/>'']]\<rparr>)
                 else r1
             | D02 \<Rightarrow>
                 if regionMode (state r1) \<and> regionPath r1 \<noteq> []
                 then r1\<lparr>regionPath := regionPath r1
                          @ [Text '' M '', Number newX, Text '' '', Number newY]\<rparr>
                 else r1
             | D03 \<Rightarrow>
                 if aperture (state r1) \<noteq> None then
                   (let (flash, r') = createFlash newX newY r1
                    in case flash of
                         Some f \<Rightarrow> if f \<noteq> [] then r'\<lparr>flashes := flashes r' @ [f]\<rparr> else r'
                       | None \<Rightarrow> r')
                 else r1)
      in r2\<lparr>state := (state r2)\<lparr>state_x := newX, state_y := newY\<rparr>\<rparr>)"

fun processCommand :: "real GerberNode \<Rightarrow> GerberToSvg \<Rightarrow> GerberToSvg" where
  "processCommand (FormatSpecification f) r = r\<lparr>state := (state r)\<lparr>formatSpec := Some f\<rparr>\<rparr>"
| "processCommand (UnitMode u) r = r\<lparr>state := (state r)\<lparr>state_unit := u\<rparr>\<rparr>"
| "processCommand (ApertureDefinition code template params) r =
     r\<lparr>apertures := (apertures r)(code \<mapsto>
          \<lparr>ap_code = code, ap_template = template, ap_params = params\<rparr>)\<rparr>"
| "processCommand (SelectAperture code) r =
     r\<lparr>state := (state r)\<lparr>aperture := apertures r code\<rparr>\<rparr>"
| "processCommand (SetInterpolationMode mode) r =
     (if mode = ''G01'' then r\<lparr>state := (state r)\<lparr>interpolation := Linear\<rparr>\<rparr>
      else if mode = ''G02'' then r\<lparr>state := (state r)\<lparr>interpolation := CW\<rparr>\<rparr>
      else if mode = ''G03'' then r\<lparr>state := (state r)\<lparr>interpolation := CCW\<rparr>\<rparr>
      else r)"
| "processCommand (LoadPolarity p) r =
     r\<lparr>state := (state r)\<lparr>polarity := (if p = ''D'' then Dark else Clear)\<rparr>\<rparr>"
| "processCommand RegionStart r =
     r\<lparr>state := (state r)\<lparr>regionMode := True\<rparr>, regionPath := []\<rparr>"
| "processCommand RegionEnd r =
     (let r1 = (if regionPath r \<noteq> [] then r\<lparr>regions := regions r @ [regionPath r @ [Text '' Z'']]\<rparr>
                else r)
      in r1\<lparr>state := (state r1)\<lparr>regionMode := False\<rparr>, regionPath := []\<rparr>)"
| "processCommand (Operation dcode x y i j) r = handleOperation dcode x y r"
| "processCommand _ r = r"

text \<open>The first loop of \<open>render\<close>: the commands of the file are processed in order. The
  assembly of the result from the accumulators, which follows it, is not modelled.\<close>

definition processCommands :: "GerberToSvg \<Rightarrow> real GerberNode list \<Rightarrow> GerberToSvg" where
  "processCommands r cmds = foldl (\<lambda>r' cmd. processCommand cmd r') r cmds"

section \<open>Notions used in the statements\<close>

text \<open>A command token is star-free when its value holds no star.\<close>

definition star_free :: "Token \<Rightarrow> bool" where
  "star_free tok = (tok_type tok = COMMAND \<longrightarrow> CHR ''*'' \<notin> set (tok_value tok))"

text \<open>
  An input is complete when it is made of white space, extended blocks closed by their
  second \<open>%\<close> and commands closed by their star: the tokenizer is between two tokens when
  it has read it. An input ends inside an unterminated extended block when it is a
  complete input followed by \<open>%\<close> and a text without \<open>%\<close>.
\<close>

definition isWhitespace :: "char \<Rightarrow> bool" where
  "isWhitespace ch = (ch = CHR '' '' \<or> ch = CHR 0x09 \<or> ch = CHR 0x0D \<or> ch = CHR 0x0A)"

inductive complete :: "string \<Rightarrow> bool" where
  complete_empty: "complete []"
| complete_space: "isWhitespace ch \<Longrightarrow> complete s \<Longrightarrow> complete (ch # s)"
| complete_block:
    "CHR ''%'' \<notin> set v \<Longrightarrow> complete s \<Longrightarrow> complete (CHR ''%'' # v @ CHR ''%'' # s)"
| complete_command:
    "CHR ''*'' \<notin> set v \<Longrightarrow> v = [] \<or> (\<not> isWhitespace (hd v) \<and> hd v \<noteq> CHR ''%'') \<Longrightarrow>
     complete s \<Longrightarrow> complete (v @ CHR ''*'' # s)"

text \<open>The prefixes \<open>parseExtendedCommand\<close> tests, in its order, on the value of the token
  without one trailing star.\<close>

definition recognisedPrefixes :: "string list" where
  "recognisedPrefixes =
     [''FS'', ''MO'', ''AD'', ''AM'', ''LP'', ''LM'', ''LR'', ''LS'', ''SR'',
      ''TF.'', ''TA.'', ''TO.'', ''TD'', ''IP'', ''OF'']"

definition hasRecognisedPrefix :: "string \<Rightarrow> bool" where
  "hasRecognisedPrefix val =
     (let content = (if endsWith ''*'' val then butlast val else val)
      in list_ex (\<lambda>p. startsWith p content) recognisedPrefixes)"

text \<open>The class of the node \<open>parseExtendedCommand\<close> builds for each of these prefixes, and
  the class for a text: that of the first prefix the text starts with, \<open>UnknownCommand\<close> if
  it starts with none.\<close>

definition prefixClasses :: "(string \<times> string) list" where
  "prefixClasses =
     [(''FS'', ''FormatSpecification''), (''MO'', ''UnitMode''), (''AD'', ''ApertureDefinition''),
      (''AM'', ''ApertureMacro''), (''LP'', ''LoadPolarity''), (''LM'', ''LoadMirroring''),
      (''LR'', ''LoadRotation''), (''LS'', ''LoadScaling''), (''SR'', ''StepRepeat''),
      (''TF.'', ''FileAttribute''), (''TA.'', ''ApertureAttribute''),
      (''TO.'', ''ObjectAttribute''), (''TD'', ''DeleteAttribute''),
      (''IP'', ''SetImagePolarity''), (''OF'', ''SetOffset'')]"

fun classOf :: "(string \<times> string) list \<Rightarrow> string \<Rightarrow> string" where
  "classOf [] content = ''UnknownCommand''"
| "classOf ((p, cls) # ps) content = (if startsWith p content then cls else classOf ps content)"

text \<open>The most recent \<open>FormatSpecification\<close> node of a list of commands, if it has one.\<close>

fun formatSpecOf :: "'n GerberNode \<Rightarrow> FormatSpec option" where
  "formatSpecOf (FormatSpecification f) = Some f"
| "formatSpecOf _ = None"

fun recentFormatSpec :: "'n GerberNode list \<Rightarrow> FormatSpec option" where
  "recentFormatSpec [] = None"
| "recentFormatSpec (c # cs) =
     (case recentFormatSpec cs of Some f \<Rightarrow> Some f | None \<Rightarrow> formatSpecOf c)"

fun isOperation :: "'n GerberNode \<Rightarrow> bool" where
  "isOperation (Operation d x y i j) = True"
| "isOperation _ = False"

text \<open>The options of a call \<open>new GerberToSvg()\<close>.\<close>

definition defaultOptions :: RenderOptions where
  "defaultOptions = \<lparr>opt_scale = None, opt_strokeColor = None, opt_fillColor = None,
                      opt_backgroundColor = None, opt_padding = None\<rparr>"

text \<open>The markup of a line from \<open>(x1, y1)\<close> to \<open>(x2, y2)\<close>, as a D01 operation writes it
  outside a region, and a point of a region path after the path command \<open>cmd\<close>.\<close>

definition lineFromTo :: "real \<Rightarrow> real \<Rightarrow> real \<Rightarrow> real \<Rightarrow> string \<Rightarrow> real \<Rightarrow> markup" where
  "lineFromTo x1 y1 x2 y2 stroke width =
     Text ''<line'' # attr ''x1'' (Number x1) @ attr ''y1'' (Number y1)
     @ attr ''x2'' (Number x2) @ attr ''y2'' (Number y2)
     @ attr ''stroke'' (Text stroke) @ attr ''stroke-width'' (Number width)
     @ attr ''stroke-linecap'' (Text ''round'') @ [Text ''/>'']"

definition pathPoint :: "string \<Rightarrow> real \<Rightarrow> real \<Rightarrow> markup" where
  "pathPoint cmd x y = [Text cmd, Number x, Text '' '', Number y]"

section \<open>Evaluation at concrete inputs\<close>

lemmas tokenizer_eval =
  tokenize_def tokenize_loop.simps skipWhitespaceAndNewlines.simps readCommand_def
  readCommand_loop.simps readExtendedCommand_def readExtendedCommand_loop.simps
  isAtEnd_def peek_def advance_def Let_def

lemmas regex_eval =
  matchStart_def theGroup_def group_def plus_def digit_def sign_def identStart_def
  identChar_def anyChar_def whiteSpace_def removeStart_def

lemmas command_eval =
  parseCommand_def startsWith_def re_aperture_def re_operation_def re_gcode_operation_def
  re_gcode_prefix_def re_dcode_def coordGroup_def parseInt_def parseNat_def digitVal_def

lemma parseExtendedCommand_MOMM: "parseExtendedCommand pf ''MOMM*'' = UnitMode ''MM''"
  by (simp add: parseExtendedCommand_def startsWith_def endsWith_def)

lemma parseExtendedCommand_TD_dot: "parseExtendedCommand pf ''TD.*'' = DeleteAttribute (Some [])"
  by (simp add: parseExtendedCommand_def startsWith_def endsWith_def)

lemma parseExtendedCommand_TD: "parseExtendedCommand pf ''TD*'' = DeleteAttribute None"
  by (simp add: parseExtendedCommand_def startsWith_def endsWith_def)

lemma parseCommand_D10: "parseCommand ''D10'' = SelectAperture 10"
  by (simp add: command_eval regex_eval)

lemma parseCommand_D11: "parseCommand ''D11'' = SelectAperture 11"
  by (simp add: command_eval regex_eval)

lemma parseGerber_D10: "parseGerber pf ''D10*'' = [SelectAperture 10]"
  by (simp add: parseGerber_def tokenizer_eval parseToken_def parseCommand_D10)

lemma parseGerber_D10_D11: "parseGerber pf ''D10*D11*'' = [SelectAperture 10, SelectAperture 11]"
  by (simp add: parseGerber_def tokenizer_eval parseToken_def parseCommand_D10 parseCommand_D11)

lemma parseGerber_empty: "parseGerber pf [] = []"
  by (simp add: parseGerber_def tokenizer_eval)

lemma parseGerber_TD_dot: "parseGerber pf ''%TD.*%'' = [DeleteAttribute (Some [])]"
  by (simp add: parseGerber_def tokenizer_eval parseToken_def parseExtendedCommand_TD_dot)

lemma parseGerber_TD: "parseGerber pf (''%TD*%'' @ [CHR 0x0A]) = [DeleteAttribute None]"
  by (simp add: parseGerber_def tokenizer_eval parseToken_def parseExtendedCommand_TD)

lemma parseCommand_D_digit:
  "c \<in> set ''456789'' \<Longrightarrow> parseCommand [CHR ''D'', c] = UnknownCommand [CHR ''D'', c, CHR ''*'']"
  by (auto simp: command_eval regex_eval)

lemma parseGerber_D_digit:
  "c \<in> set ''456789'' \<Longrightarrow>
   parseGerber pf [CHR ''D'', c, CHR ''*''] = [UnknownCommand [CHR ''D'', c, CHR ''*'']]"
  using parseCommand_D_digit[of c]
  by (auto simp: parseGerber_def tokenizer_eval parseToken_def)

section \<open>Properties of the tokenizer\<close>

lemma readCommand_loop_no_star:
  "CHR ''*'' \<notin> set val \<Longrightarrow> CHR ''*'' \<notin> set (butlast (fst (readCommand_loop val t)))"
proof (induction val t rule: readCommand_loop.induct)
  case (1 val t)
  show ?case
  proof (cases "isAtEnd t")
    case True
    with "1.prems" show ?thesis
      by (auto simp: readCommand_loop.simps[of val t] dest: in_set_butlastD)
  next
    case False
    then obtain c cs where rt: "rest t = c # cs"
      by (cases "rest t") (auto simp: isAtEnd_def)
    show ?thesis
    proof (cases "c = CHR ''*''")
      case True
      with False rt "1.prems" show ?thesis
        by (simp add: readCommand_loop.simps[of val t] Let_def)
    next
      case other: False
      have "CHR ''*'' \<notin> set (val @ fst (advance t))"
        using "1.prems" other rt by simp
      then have "CHR ''*'' \<notin> set (butlast (fst (readCommand_loop (val @ fst (advance t))
                                                (snd (advance t)))))"
        using "1.IH"[OF False refl refl refl] other rt by simp
      with False other rt show ?thesis
        by (simp add: readCommand_loop.simps[of val t] Let_def)
    qed
  qed
qed

lemma readCommand_star_free: "star_free (fst (readCommand t))"
  using readCommand_loop_no_star[of "[]" t]
  by (simp add: star_free_def readCommand_def Let_def split_beta)

lemma readExtendedCommand_star_free: "star_free (fst (readExtendedCommand t))"
  by (simp add: star_free_def readExtendedCommand_def Let_def split_beta)

lemma tokenize_loop_star_free:
  "\<forall>tok \<in> set tokens. star_free tok \<Longrightarrow>
   \<forall>tok \<in> set (fst (tokenize_loop tokens t)). star_free tok"
proof (induction tokens t rule: tokenize_loop.induct)
  case (1 tokens t)
  show ?case
    using 1 readCommand_star_free readExtendedCommand_star_free
    by (subst tokenize_loop.simps) (auto simp: Let_def)
qed

text \<open>
  Claim C9. For every input string, the value of every token of type \<open>COMMAND\<close> that the
  tokenizer produces contains no star: \<open>readCommand\<close> stops at the first star and the
  last character of what it read is removed before the token is emitted.
\<close>

theorem tokenize_command_no_star:
  "\<forall>tok \<in> set (tokenize source).
     tok_type tok = COMMAND \<longrightarrow> CHR ''*'' \<notin> set (tok_value tok)"
proof -
  have "\<forall>tok \<in> set (fst (tokenize_loop [] \<lparr>rest = source, line = 1, column = 1\<rparr>)).
          star_free tok"
    by (rule tokenize_loop_star_free) simp
  then show ?thesis
    by (simp add: tokenize_def star_free_def split_beta)
qed

theorem tokenize_command_no_star_witness:
  "\<lparr>tok_type = COMMAND, tok_value = ''D10'', tok_line = 1, tok_column = 5\<rparr>
     \<in> set (tokenize ''G36*D10*'')
   \<and> CHR ''*'' \<notin> set ''D10''"
proof -
  have "\<lparr>tok_type = COMMAND, tok_value = ''D10'', tok_line = 1, tok_column = 5\<rparr>
          \<in> set (tokenize ''G36*D10*'')"
    by code_simp
  then show ?thesis
    using tokenize_command_no_star[of "''G36*D10*''"] by auto
qed

text \<open>
  Claim C6. For an input that ends inside a command with no terminating star, the claim
  says the value of the \<open>COMMAND\<close> token is exactly the characters read up to the end of the
  input. \<open>readCommand\<close> removes the last character read whether it is a star or not
  (\<open>value.slice(0, -1)\<close>, commented "remove trailing *"): on the input \<open>D10\<close> the value of
  the token is \<open>D1\<close>.
\<close>

theorem tokenize_unterminated_command:
  "tokenize ''D10'' =
     [\<lparr>tok_type = COMMAND, tok_value = ''D1'', tok_line = 1, tok_column = 1\<rparr>,
      \<lparr>tok_type = EOF, tok_value = [], tok_line = 1, tok_column = 4\<rparr>]"
  by (simp add: tokenizer_eval)

section \<open>Properties of the parser\<close>

lemma advance_char:
  "advance \<lparr>rest = a # s, line = l, column = c\<rparr> =
     ([a], if a = CHR 0x0A then \<lparr>rest = s, line = l + 1, column = 1\<rparr>
           else \<lparr>rest = s, line = l, column = c + 1\<rparr>)"
  by (simp add: advance_def Let_def)

lemma readExtendedCommand_loop_closed:
  "CHR ''%'' \<notin> set v \<Longrightarrow>
   \<exists>l' c'. \<forall>s val. readExtendedCommand_loop val \<lparr>rest = v @ CHR ''%'' # s, line = l, column = c\<rparr>
            = (val @ v, \<lparr>rest = s, line = l', column = c'\<rparr>)"
proof (induction v arbitrary: l c)
  case Nil
  have "\<forall>s val. readExtendedCommand_loop val \<lparr>rest = [] @ CHR ''%'' # s, line = l, column = c\<rparr>
            = (val @ [], \<lparr>rest = s, line = l, column = c + 1\<rparr>)"
    by (simp add: readExtendedCommand_loop.simps[of _ "\<lparr>rest = _ # _, line = l, column = c\<rparr>"]
        isAtEnd_def advance_char Let_def)
  then show ?case by blast
next
  case (Cons a v)
  then have a: "a \<noteq> CHR ''%''" and v: "CHR ''%'' \<notin> set v" by auto
  obtain l1 c1 where adv: "\<And>w. advance \<lparr>rest = a # w, line = l, column = c\<rparr>
                           = ([a], \<lparr>rest = w, line = l1, column = c1\<rparr>)"
    by (cases "a = CHR 0x0A") (auto simp: advance_char)
  obtain l' c' where ih: "\<forall>s val. readExtendedCommand_loop val
        \<lparr>rest = v @ CHR ''%'' # s, line = l1, column = c1\<rparr>
      = (val @ v, \<lparr>rest = s, line = l', column = c'\<rparr>)"
    using Cons.IH[OF v, of l1 c1] by blast
  have "\<forall>s val. readExtendedCommand_loop val \<lparr>rest = (a # v) @ CHR ''%'' # s, line = l, column = c\<rparr>
            = (val @ a # v, \<lparr>rest = s, line = l', column = c'\<rparr>)"
    using a ih
    by (simp add: readExtendedCommand_loop.simps[of _ "\<lparr>rest = a # _, line = l, column = c\<rparr>"]
        isAtEnd_def adv Let_def)
  then show ?case by blast
qed

lemma readExtendedCommand_loop_open:
  "CHR ''%'' \<notin> set v \<Longrightarrow>
   \<exists>l' c'. \<forall>val. readExtendedCommand_loop val \<lparr>rest = v, line = l, column = c\<rparr>
            = (val @ v, \<lparr>rest = [], line = l', column = c'\<rparr>)"
proof (induction v arbitrary: l c)
  case Nil
  have "\<forall>val. readExtendedCommand_loop val \<lparr>rest = [], line = l, column = c\<rparr>
            = (val @ [], \<lparr>rest = [], line = l, column = c\<rparr>)"
    by (simp add: readExtendedCommand_loop.simps[of _ "\<lparr>rest = [], line = l, column = c\<rparr>"]
        isAtEnd_def)
  then show ?case by blast
next
  case (Cons a v)
  then have a: "a \<noteq> CHR ''%''" and v: "CHR ''%'' \<notin> set v" by auto
  obtain l1 c1 where adv: "\<And>w. advance \<lparr>rest = a # w, line = l, column = c\<rparr>
                           = ([a], \<lparr>rest = w, line = l1, column = c1\<rparr>)"
    by (cases "a = CHR 0x0A") (auto simp: advance_char)
  obtain l' c' where ih: "\<forall>val. readExtendedCommand_loop val
        \<lparr>rest = v, line = l1, column = c1\<rparr>
      = (val @ v, \<lparr>rest = [], line = l', column = c'\<rparr>)"
    using Cons.IH[OF v, of l1 c1] by blast
  have "\<forall>val. readExtendedCommand_loop val \<lparr>rest = a # v, line = l, column = c\<rparr>
            = (val @ a # v, \<lparr>rest = [], line = l', column = c'\<rparr>)"
    using a ih
    by (simp add: readExtendedCommand_loop.simps[of _ "\<lparr>rest = a # _, line = l, column = c\<rparr>"]
        isAtEnd_def adv Let_def)
  then show ?case by blast
qed

lemma readCommand_loop_closed:
  "CHR ''*'' \<notin> set v \<Longrightarrow>
   \<exists>l' c'. \<forall>s val. readCommand_loop val \<lparr>rest = v @ CHR ''*'' # s, line = l, column = c\<rparr>
            = (val @ v @ ''*'', \<lparr>rest = s, line = l', column = c'\<rparr>)"
proof (induction v arbitrary: l c)
  case Nil
  have "\<forall>s val. readCommand_loop val \<lparr>rest = [] @ CHR ''*'' # s, line = l, column = c\<rparr>
            = (val @ [] @ ''*'', \<lparr>rest = s, line = l, column = c + 1\<rparr>)"
    by (simp add: readCommand_loop.simps[of _ "\<lparr>rest = _ # _, line = l, column = c\<rparr>"]
        isAtEnd_def advance_char Let_def)
  then show ?case by blast
next
  case (Cons a v)
  then have a: "a \<noteq> CHR ''*''" and v: "CHR ''*'' \<notin> set v" by auto
  obtain l1 c1 where adv: "\<And>w. advance \<lparr>rest = a # w, line = l, column = c\<rparr>
                           = ([a], \<lparr>rest = w, line = l1, column = c1\<rparr>)"
    by (cases "a = CHR 0x0A") (auto simp: advance_char)
  obtain l' c' where ih: "\<forall>s val. readCommand_loop val
        \<lparr>rest = v @ CHR ''*'' # s, line = l1, column = c1\<rparr>
      = (val @ v @ ''*'', \<lparr>rest = s, line = l', column = c'\<rparr>)"
    using Cons.IH[OF v, of l1 c1] by blast
  have "\<forall>s val. readCommand_loop val \<lparr>rest = (a # v) @ CHR ''*'' # s, line = l, column = c\<rparr>
            = (val @ (a # v) @ ''*'', \<lparr>rest = s, line = l', column = c'\<rparr>)"
    using a ih
    by (simp add: readCommand_loop.simps[of _ "\<lparr>rest = a # _, line = l, column = c\<rparr>"]
        isAtEnd_def adv Let_def)
  then show ?case by blast
qed

lemma skip_not_space:
  "\<not> isWhitespace ch \<Longrightarrow>
   skipWhitespaceAndNewlines \<lparr>rest = ch # u, line = l, column = c\<rparr>
     = \<lparr>rest = ch # u, line = l, column = c\<rparr>"
  by (simp add: skipWhitespaceAndNewlines.simps[of "\<lparr>rest = ch # u, line = l, column = c\<rparr>"]
      isAtEnd_def peek_def isWhitespace_def)

lemma skip_space:
  "isWhitespace ch \<Longrightarrow>
   skipWhitespaceAndNewlines \<lparr>rest = ch # u, line = l, column = c\<rparr>
     = skipWhitespaceAndNewlines (snd (advance \<lparr>rest = ch # u, line = l, column = c\<rparr>))"
  by (subst skipWhitespaceAndNewlines.simps) (auto simp: isAtEnd_def peek_def isWhitespace_def)

lemma tokenize_loop_space:
  assumes "isWhitespace ch"
  shows "tokenize_loop acc \<lparr>rest = ch # u, line = l, column = c\<rparr>
           = tokenize_loop acc (snd (advance \<lparr>rest = ch # u, line = l, column = c\<rparr>))"
proof -
  let ?t = "\<lparr>rest = ch # u, line = l, column = c\<rparr>"
  let ?t' = "snd (advance ?t)"
  have sk: "skipWhitespaceAndNewlines ?t = skipWhitespaceAndNewlines ?t'"
    using skip_space[OF assms] .
  have ne: "\<not> isAtEnd ?t" by (simp add: isAtEnd_def)
  show ?thesis
  proof (cases "isAtEnd ?t'")
    case True
    then have "skipWhitespaceAndNewlines ?t' = ?t'"
      by (simp add: skipWhitespaceAndNewlines.simps[of ?t'])
    with True sk ne show ?thesis
      by (simp add: tokenize_loop.simps[of acc ?t] tokenize_loop.simps[of acc ?t'] Let_def)
  next
    case False
    with sk ne show ?thesis
      by (simp add: tokenize_loop.simps[of acc ?t] tokenize_loop.simps[of acc ?t'] Let_def)
  qed
qed

lemma tokenize_loop_block:
  assumes "CHR ''%'' \<notin> set v"
  shows "\<exists>l' c'. \<forall>u acc. tokenize_loop acc \<lparr>rest = CHR ''%'' # v @ CHR ''%'' # u, line = l, column = c\<rparr>
           = tokenize_loop
               (acc @ [\<lparr>tok_type = EXTENDED_COMMAND, tok_value = v, tok_line = l, tok_column = c\<rparr>])
               \<lparr>rest = u, line = l', column = c'\<rparr>"
proof -
  obtain l' c' where lp: "\<forall>s val. readExtendedCommand_loop val
        \<lparr>rest = v @ CHR ''%'' # s, line = l, column = c + 1\<rparr>
      = (val @ v, \<lparr>rest = s, line = l', column = c'\<rparr>)"
    using readExtendedCommand_loop_closed[OF assms] by blast
  have "tokenize_loop acc \<lparr>rest = CHR ''%'' # v @ CHR ''%'' # u, line = l, column = c\<rparr>
          = tokenize_loop
               (acc @ [\<lparr>tok_type = EXTENDED_COMMAND, tok_value = v, tok_line = l, tok_column = c\<rparr>])
               \<lparr>rest = u, line = l', column = c'\<rparr>" for acc u
  proof -
    let ?t = "\<lparr>rest = CHR ''%'' # v @ CHR ''%'' # u, line = l, column = c\<rparr>"
    have rd: "readExtendedCommand ?t =
        (\<lparr>tok_type = EXTENDED_COMMAND, tok_value = v, tok_line = l, tok_column = c\<rparr>,
         \<lparr>rest = u, line = l', column = c'\<rparr>)"
      using lp by (simp add: readExtendedCommand_def advance_char Let_def)
    have sk: "skipWhitespaceAndNewlines ?t = ?t"
      by (rule skip_not_space) (simp add: isWhitespace_def)
    have ne: "\<not> isAtEnd ?t" by (simp add: isAtEnd_def)
    have pk: "peek ?t = ''%''" by (simp add: peek_def)
    show ?thesis
      by (subst tokenize_loop.simps) (simp add: sk rd ne pk Let_def)
  qed
  then show ?thesis by blast
qed

lemma tokenize_loop_open_block:
  assumes "CHR ''%'' \<notin> set v"
  shows "\<exists>l' c'. \<forall>acc. tokenize_loop acc \<lparr>rest = CHR ''%'' # v, line = l, column = c\<rparr>
           = (acc @ [\<lparr>tok_type = EXTENDED_COMMAND, tok_value = v, tok_line = l, tok_column = c\<rparr>],
              \<lparr>rest = [], line = l', column = c'\<rparr>)"
proof -
  let ?t = "\<lparr>rest = CHR ''%'' # v, line = l, column = c\<rparr>"
  obtain l' c' where lp: "\<forall>val. readExtendedCommand_loop val
        \<lparr>rest = v, line = l, column = c + 1\<rparr>
      = (val @ v, \<lparr>rest = [], line = l', column = c'\<rparr>)"
    using readExtendedCommand_loop_open[OF assms] by blast
  have rd: "readExtendedCommand ?t =
      (\<lparr>tok_type = EXTENDED_COMMAND, tok_value = v, tok_line = l, tok_column = c\<rparr>,
       \<lparr>rest = [], line = l', column = c'\<rparr>)"
    using lp by (simp add: readExtendedCommand_def advance_char Let_def)
  have sk: "skipWhitespaceAndNewlines ?t = ?t"
    by (rule skip_not_space) (simp add: isWhitespace_def)
  have ne: "\<not> isAtEnd ?t" by (simp add: isAtEnd_def)
  have pk: "peek ?t = ''%''" by (simp add: peek_def)
  have en: "tokenize_loop acc' \<lparr>rest = [], line = l', column = c'\<rparr>
              = (acc', \<lparr>rest = [], line = l', column = c'\<rparr>)" for acc'
    by (subst tokenize_loop.simps) (simp add: isAtEnd_def)
  have "tokenize_loop acc ?t =
          (acc @ [\<lparr>tok_type = EXTENDED_COMMAND, tok_value = v, tok_line = l, tok_column = c\<rparr>],
           \<lparr>rest = [], line = l', column = c'\<rparr>)" for acc
    by (subst tokenize_loop.simps) (simp add: sk rd ne pk en Let_def)
  then show ?thesis by blast
qed

lemma tokenize_loop_command:
  assumes "CHR ''*'' \<notin> set v" and "v = [] \<or> (\<not> isWhitespace (hd v) \<and> hd v \<noteq> CHR ''%'')"
  shows "\<exists>l' c'. \<forall>u acc. tokenize_loop acc \<lparr>rest = v @ CHR ''*'' # u, line = l, column = c\<rparr>
           = tokenize_loop
               (acc @ [\<lparr>tok_type = COMMAND, tok_value = v, tok_line = l, tok_column = c\<rparr>])
               \<lparr>rest = u, line = l', column = c'\<rparr>"
proof -
  obtain l' c' where lp: "\<forall>s val. readCommand_loop val
        \<lparr>rest = v @ CHR ''*'' # s, line = l, column = c\<rparr>
      = (val @ v @ ''*'', \<lparr>rest = s, line = l', column = c'\<rparr>)"
    using readCommand_loop_closed[OF assms(1)] by blast
  have "tokenize_loop acc \<lparr>rest = v @ CHR ''*'' # u, line = l, column = c\<rparr>
          = tokenize_loop
               (acc @ [\<lparr>tok_type = COMMAND, tok_value = v, tok_line = l, tok_column = c\<rparr>])
               \<lparr>rest = u, line = l', column = c'\<rparr>" for acc u
  proof -
    let ?t = "\<lparr>rest = v @ CHR ''*'' # u, line = l, column = c\<rparr>"
    obtain ch w where cw: "v @ CHR ''*'' # u = ch # w" "\<not> isWhitespace ch" "ch \<noteq> CHR ''%''"
      using assms(2) by (cases v) (auto simp: isWhitespace_def)
    have rd: "readCommand ?t =
        (\<lparr>tok_type = COMMAND, tok_value = v, tok_line = l, tok_column = c\<rparr>,
         \<lparr>rest = u, line = l', column = c'\<rparr>)"
      using lp by (simp add: readCommand_def Let_def)
    have sk: "skipWhitespaceAndNewlines ?t = ?t"
      using skip_not_space[OF cw(2), of w l c] cw(1) by simp
    have ne: "\<not> isAtEnd ?t" by (simp add: isAtEnd_def)
    have pk: "peek ?t \<noteq> ''%''" using cw by (simp add: peek_def)
    show ?thesis
      by (subst tokenize_loop.simps) (simp add: sk rd ne pk Let_def)
  qed
  then show ?thesis by blast
qed

lemma complete_tokens:
  "complete pre \<Longrightarrow>
   \<exists>toks l' c'. (\<forall>tok \<in> set toks. tok_type tok \<noteq> EOF)
     \<and> (\<forall>acc u. tokenize_loop acc \<lparr>rest = pre @ u, line = l, column = c\<rparr>
                  = tokenize_loop (acc @ toks) \<lparr>rest = u, line = l', column = c'\<rparr>)"
proof (induction pre arbitrary: l c rule: complete.induct)
  case complete_empty
  have "(\<forall>tok \<in> set ([] :: Token list). tok_type tok \<noteq> EOF)
     \<and> (\<forall>acc u. tokenize_loop acc \<lparr>rest = [] @ u, line = l, column = c\<rparr>
                  = tokenize_loop (acc @ []) \<lparr>rest = u, line = l, column = c\<rparr>)"
    by simp
  then show ?case by blast
next
  case (complete_space ch s)
  obtain l1 c1 where adv: "\<And>u. snd (advance \<lparr>rest = ch # s @ u, line = l, column = c\<rparr>)
                           = \<lparr>rest = s @ u, line = l1, column = c1\<rparr>"
    by (cases "ch = CHR 0x0A") (auto simp: advance_char)
  obtain toks l' c' where ih: "\<forall>tok \<in> set toks. tok_type tok \<noteq> EOF"
      "\<forall>acc u. tokenize_loop acc \<lparr>rest = s @ u, line = l1, column = c1\<rparr>
                  = tokenize_loop (acc @ toks) \<lparr>rest = u, line = l', column = c'\<rparr>"
    using complete_space.IH[of l1 c1] by blast
  have "tokenize_loop acc \<lparr>rest = (ch # s) @ u, line = l, column = c\<rparr>
          = tokenize_loop (acc @ toks) \<lparr>rest = u, line = l', column = c'\<rparr>" for acc u
    using tokenize_loop_space[OF complete_space.hyps(1), of acc "s @ u" l c] adv[of u] ih(2)
    by simp
  with ih(1) show ?case by blast
next
  case (complete_block v s)
  let ?tok = "\<lparr>tok_type = EXTENDED_COMMAND, tok_value = v, tok_line = l, tok_column = c\<rparr>"
  obtain l1 c1 where st: "\<forall>u acc. tokenize_loop acc
        \<lparr>rest = CHR ''%'' # v @ CHR ''%'' # u, line = l, column = c\<rparr>
      = tokenize_loop (acc @ [?tok]) \<lparr>rest = u, line = l1, column = c1\<rparr>"
    using tokenize_loop_block[OF complete_block.hyps(1), of l c] by blast
  obtain toks l' c' where ih: "\<forall>tok \<in> set toks. tok_type tok \<noteq> EOF"
      "\<forall>acc u. tokenize_loop acc \<lparr>rest = s @ u, line = l1, column = c1\<rparr>
                  = tokenize_loop (acc @ toks) \<lparr>rest = u, line = l', column = c'\<rparr>"
    using complete_block.IH[of l1 c1] by blast
  have "tokenize_loop acc \<lparr>rest = (CHR ''%'' # v @ CHR ''%'' # s) @ u, line = l, column = c\<rparr>
          = tokenize_loop (acc @ (?tok # toks)) \<lparr>rest = u, line = l', column = c'\<rparr>" for acc u
    using st ih(2) by simp
  moreover have "\<forall>tok \<in> set (?tok # toks). tok_type tok \<noteq> EOF"
    using ih(1) by simp
  ultimately show ?case by blast
next
  case (complete_command v s)
  let ?tok = "\<lparr>tok_type = COMMAND, tok_value = v, tok_line = l, tok_column = c\<rparr>"
  obtain l1 c1 where st: "\<forall>u acc. tokenize_loop acc
        \<lparr>rest = v @ CHR ''*'' # u, line = l, column = c\<rparr>
      = tokenize_loop (acc @ [?tok]) \<lparr>rest = u, line = l1, column = c1\<rparr>"
    using tokenize_loop_command[OF complete_command.hyps(1,2), of l c] by blast
  obtain toks l' c' where ih: "\<forall>tok \<in> set toks. tok_type tok \<noteq> EOF"
      "\<forall>acc u. tokenize_loop acc \<lparr>rest = s @ u, line = l1, column = c1\<rparr>
                  = tokenize_loop (acc @ toks) \<lparr>rest = u, line = l', column = c'\<rparr>"
    using complete_command.IH[of l1 c1] by blast
  have "tokenize_loop acc \<lparr>rest = (v @ CHR ''*'' # s) @ u, line = l, column = c\<rparr>
          = tokenize_loop (acc @ (?tok # toks)) \<lparr>rest = u, line = l', column = c'\<rparr>" for acc u
    using st ih(2) by simp
  moreover have "\<forall>tok \<in> set (?tok # toks). tok_type tok \<noteq> EOF"
    using ih(1) by simp
  ultimately show ?case by blast
qed

lemma parse_loop_acc: "parse_loop pf nodes toks = nodes @ parse_loop pf [] toks"
proof (induction toks arbitrary: nodes)
  case Nil
  show ?case by simp
next
  case (Cons tok toks)
  show ?case
  proof (cases "parseToken pf tok")
    case None
    then show ?thesis using Cons[of nodes] by simp
  next
    case (Some n)
    then show ?thesis using Cons[of "nodes @ [n]"] Cons[of "[n]"] by simp
  qed
qed

lemma parse_loop_append:
  "\<forall>tok \<in> set toks. tok_type tok \<noteq> EOF \<Longrightarrow>
   parse_loop pf nodes (toks @ others) = parse_loop pf (parse_loop pf nodes toks) others"
proof (induction toks arbitrary: nodes)
  case Nil
  show ?case by simp
next
  case (Cons tok toks)
  then have ne: "tok_type tok \<noteq> EOF" and rest: "\<forall>t \<in> set toks. tok_type t \<noteq> EOF"
    by simp_all
  show ?case
  proof (cases "parseToken pf tok")
    case None
    then show ?thesis using Cons.IH[OF rest, of nodes] ne by simp
  next
    case (Some n)
    then show ?thesis using Cons.IH[OF rest, of "nodes @ [n]"] ne by simp
  qed
qed

lemma tokenize_loop_end:
  "tokenize_loop acc \<lparr>rest = [], line = l, column = c\<rparr> = (acc, \<lparr>rest = [], line = l, column = c\<rparr>)"
  by (subst tokenize_loop.simps) (simp add: isAtEnd_def)

lemma parseFormatSpec_not_unknown [simp]: "parseFormatSpec content \<noteq> UnknownCommand raw"
  by (simp add: parseFormatSpec_def new_FormatSpecification_def Let_def)

lemma parseApertureDefinition_not_unknown [simp]:
  "parseApertureDefinition pf content \<noteq> UnknownCommand raw"
  by (simp add: parseApertureDefinition_def Let_def split: option.splits)

lemma parseApertureMacro_not_unknown [simp]: "parseApertureMacro content \<noteq> UnknownCommand raw"
  by (simp add: parseApertureMacro_def Let_def split: option.splits)

lemma parseStepRepeat_not_unknown [simp]: "parseStepRepeat pf content \<noteq> UnknownCommand raw"
  by (simp add: parseStepRepeat_def Let_def)

lemma parseAttribute_not_unknown [simp]:
  "parseAttribute content p FileAttribute \<noteq> UnknownCommand raw"
  "parseAttribute content p ApertureAttribute \<noteq> UnknownCommand raw"
  "parseAttribute content p ObjectAttribute \<noteq> UnknownCommand raw"
  by (simp_all add: parseAttribute_def Let_def)

lemma parseExtendedCommand_unknown:
  "\<not> hasRecognisedPrefix val \<Longrightarrow> parseExtendedCommand pf val = UnknownCommand (''%'' @ val @ ''%'')"
  unfolding hasRecognisedPrefix_def recognisedPrefixes_def parseExtendedCommand_def Let_def
  by (simp only: list_ex_Cons_iff list_ex_Nil_iff de_Morgan_disj if_False simp_thms split: if_splits)

lemma parseExtendedCommand_recognised:
  assumes "parseExtendedCommand pf val = UnknownCommand raw"
  shows "\<not> hasRecognisedPrefix val"
proof -
  define content where "content = (if endsWith ''*'' val then butlast val else val)"
  have pe: "parseExtendedCommand pf val =
     (if startsWith ''FS'' content then parseFormatSpec content
         else if startsWith ''MO'' content then UnitMode (drop 2 content)
         else if startsWith ''AD'' content then parseApertureDefinition pf content
         else if startsWith ''AM'' content then parseApertureMacro content
         else if startsWith ''LP'' content then LoadPolarity (drop 2 content)
         else if startsWith ''LM'' content then LoadMirroring (drop 2 content)
         else if startsWith ''LR'' content then LoadRotation (pf (drop 2 content))
         else if startsWith ''LS'' content then LoadScaling (pf (drop 2 content))
         else if startsWith ''SR'' content then parseStepRepeat pf content
         else if startsWith ''TF.'' content then parseAttribute content ''TF.'' FileAttribute
         else if startsWith ''TA.'' content then parseAttribute content ''TA.'' ApertureAttribute
         else if startsWith ''TO.'' content then parseAttribute content ''TO.'' ObjectAttribute
         else if startsWith ''TD'' content
           then (let rest = drop 2 content
                 in if startsWith ''.'' rest then DeleteAttribute (Some (drop 1 rest))
                    else DeleteAttribute None)
         else if startsWith ''IP'' content then SetImagePolarity (drop 2 content)
         else if startsWith ''OF'' content
           then (let aMatch = search (re_decimal CHR ''A'') content;
                     bMatch = search (re_decimal CHR ''B'') content
                 in SetOffset
                      (case aMatch of Some m \<Rightarrow> pf (theGroup m 1) | None \<Rightarrow> 0)
                      (case bMatch of Some m \<Rightarrow> pf (theGroup m 1) | None \<Rightarrow> 0))
         else UnknownCommand (''%'' @ val @ ''%''))"
    unfolding parseExtendedCommand_def content_def Let_def ..
  have hp: "hasRecognisedPrefix val = list_ex (\<lambda>p. startsWith p content) recognisedPrefixes"
    unfolding hasRecognisedPrefix_def content_def Let_def ..
  show ?thesis
  proof
    assume "hasRecognisedPrefix val"
    then consider "startsWith ''FS'' content" | "startsWith ''MO'' content"
      | "startsWith ''AD'' content" | "startsWith ''AM'' content" | "startsWith ''LP'' content"
      | "startsWith ''LM'' content" | "startsWith ''LR'' content" | "startsWith ''LS'' content"
      | "startsWith ''SR'' content" | "startsWith ''TF.'' content" | "startsWith ''TA.'' content"
      | "startsWith ''TO.'' content" | "startsWith ''TD'' content" | "startsWith ''IP'' content"
      | "startsWith ''OF'' content"
      unfolding hp recognisedPrefixes_def by (simp only: list_ex_Cons_iff list_ex_Nil_iff) blast
    then show False
      using assms unfolding pe
      by cases (simp_all add: Let_def split: if_splits)
  qed
qed

lemma nodeType_parse [simp]:
  "nodeType (parseFormatSpec content :: 'n GerberNode) = ''FormatSpecification''"
  "nodeType (parseApertureDefinition pf content) = ''ApertureDefinition''"
  "nodeType (parseApertureMacro content :: 'n GerberNode) = ''ApertureMacro''"
  "nodeType (parseStepRepeat pg content) = ''StepRepeat''"
  "nodeType (parseAttribute content p FileAttribute :: 'n GerberNode) = ''FileAttribute''"
  "nodeType (parseAttribute content p ApertureAttribute :: 'n GerberNode) = ''ApertureAttribute''"
  "nodeType (parseAttribute content p ObjectAttribute :: 'n GerberNode) = ''ObjectAttribute''"
  by (simp_all add: parseFormatSpec_def new_FormatSpecification_def parseApertureDefinition_def
      parseApertureMacro_def parseStepRepeat_def parseAttribute_def Let_def
      split: option.splits)

lemma parseExtendedCommand_class:
  "nodeType (parseExtendedCommand pf val) =
     classOf prefixClasses (if endsWith ''*'' val then butlast val else val)"
proof -
  define content where "content = (if endsWith ''*'' val then butlast val else val)"
  have pe: "parseExtendedCommand pf val =
     (if startsWith ''FS'' content then parseFormatSpec content
         else if startsWith ''MO'' content then UnitMode (drop 2 content)
         else if startsWith ''AD'' content then parseApertureDefinition pf content
         else if startsWith ''AM'' content then parseApertureMacro content
         else if startsWith ''LP'' content then LoadPolarity (drop 2 content)
         else if startsWith ''LM'' content then LoadMirroring (drop 2 content)
         else if startsWith ''LR'' content then LoadRotation (pf (drop 2 content))
         else if startsWith ''LS'' content then LoadScaling (pf (drop 2 content))
         else if startsWith ''SR'' content then parseStepRepeat pf content
         else if startsWith ''TF.'' content then parseAttribute content ''TF.'' FileAttribute
         else if startsWith ''TA.'' content then parseAttribute content ''TA.'' ApertureAttribute
         else if startsWith ''TO.'' content then parseAttribute content ''TO.'' ObjectAttribute
         else if startsWith ''TD'' content
           then (let rest = drop 2 content
                 in if startsWith ''.'' rest then DeleteAttribute (Some (drop 1 rest))
                    else DeleteAttribute None)
         else if startsWith ''IP'' content then SetImagePolarity (drop 2 content)
         else if startsWith ''OF'' content
           then (let aMatch = search (re_decimal CHR ''A'') content;
                     bMatch = search (re_decimal CHR ''B'') content
                 in SetOffset
                      (case aMatch of Some m \<Rightarrow> pf (theGroup m 1) | None \<Rightarrow> 0)
                      (case bMatch of Some m \<Rightarrow> pf (theGroup m 1) | None \<Rightarrow> 0))
         else UnknownCommand (''%'' @ val @ ''%''))"
    unfolding parseExtendedCommand_def content_def Let_def ..
  show ?thesis
    unfolding pe content_def[symmetric] prefixClasses_def classOf.simps
    by (simp only: nodeType_parse nodeType.simps Let_def if_distrib[of nodeType] if_cancel)
qed

text \<open>
  Claim C5, amended. When the input ends inside an unterminated extended block, that is,
  when it is a complete input followed by \<open>%\<close> and a text \<open>body\<close> without \<open>%\<close>, the tokenizer
  emits the tokens of the complete input followed by one \<open>EXTENDED_COMMAND\<close> token whose
  value is \<open>body\<close>, and the parser handles this token as it handles the token of a closed
  block: the nodes are those of the complete input followed by
  \<open>parseExtendedCommand body\<close>, and they are the nodes of the same input with the block
  closed by \<open>%\<close>. The class of that node is the class of the prefix that \<open>body\<close> without one
  trailing star starts with (\<open>FormatSpecification\<close> for \<open>FS\<close>, \<open>UnitMode\<close> for \<open>MO\<close>, and
  so on through \<open>prefixClasses\<close>). The node is an \<open>UnknownCommand\<close>, with raw text
  \<open>%body%\<close>, exactly when \<open>body\<close> without one trailing star starts with none of the
  prefixes the parser recognises.
\<close>

theorem unterminated_block_dispatch:
  assumes "complete pre" and "CHR ''%'' \<notin> set body"
  shows "(\<exists>l c eof. tokenize (pre @ ''%'' @ body) =
            butlast (tokenize pre)
            @ [\<lparr>tok_type = EXTENDED_COMMAND, tok_value = body, tok_line = l, tok_column = c\<rparr>, eof]
            \<and> tok_type eof = EOF)
       \<and> parseGerber pf (pre @ ''%'' @ body) = parseGerber pf pre @ [parseExtendedCommand pf body]
       \<and> parseGerber pf (pre @ ''%'' @ body) = parseGerber pf (pre @ ''%'' @ body @ ''%'')
       \<and> nodeType (parseExtendedCommand pf body) =
           classOf prefixClasses (if endsWith ''*'' body then butlast body else body)
       \<and> (hasRecognisedPrefix body \<longrightarrow> (\<forall>raw. parseExtendedCommand pf body \<noteq> UnknownCommand raw))
       \<and> (\<not> hasRecognisedPrefix body \<longrightarrow>
            parseExtendedCommand pf body = UnknownCommand (''%'' @ body @ ''%''))"
proof -
  obtain toks l' c' where eofs: "\<forall>tok \<in> set toks. tok_type tok \<noteq> EOF"
    and tk: "\<forall>acc u. tokenize_loop acc \<lparr>rest = pre @ u, line = 1, column = 1\<rparr>
                  = tokenize_loop (acc @ toks) \<lparr>rest = u, line = l', column = c'\<rparr>"
    using complete_tokens[OF assms(1), of 1 1] by blast
  let ?tok = "\<lparr>tok_type = EXTENDED_COMMAND, tok_value = body, tok_line = l', tok_column = c'\<rparr>"
  obtain l2 c2 where ob: "\<forall>acc. tokenize_loop acc \<lparr>rest = CHR ''%'' # body, line = l', column = c'\<rparr>
      = (acc @ [?tok], \<lparr>rest = [], line = l2, column = c2\<rparr>)"
    using tokenize_loop_open_block[OF assms(2), of l' c'] by blast
  obtain l3 c3 where cb: "\<forall>u acc. tokenize_loop acc
        \<lparr>rest = CHR ''%'' # body @ CHR ''%'' # u, line = l', column = c'\<rparr>
      = tokenize_loop (acc @ [?tok]) \<lparr>rest = u, line = l3, column = c3\<rparr>"
    using tokenize_loop_block[OF assms(2), of l' c'] by blast
  let ?eof1 = "\<lparr>tok_type = EOF, tok_value = [], tok_line = l', tok_column = c'\<rparr>"
  let ?eof2 = "\<lparr>tok_type = EOF, tok_value = [], tok_line = l2, tok_column = c2\<rparr>"
  let ?eof3 = "\<lparr>tok_type = EOF, tok_value = [], tok_line = l3, tok_column = c3\<rparr>"
  have t1: "tokenize pre = toks @ [?eof1]"
    using tk[rule_format, of "[]" "[]"] by (simp add: tokenize_def tokenize_loop_end)
  have t2: "tokenize (pre @ ''%'' @ body) = toks @ [?tok, ?eof2]"
    using tk[rule_format, of "[]" "CHR ''%'' # body"] ob by (simp add: tokenize_def)
  have t3: "tokenize (pre @ ''%'' @ body @ ''%'') = toks @ [?tok, ?eof3]"
    using tk[rule_format, of "[]" "CHR ''%'' # body @ CHR ''%'' # []"] cb[rule_format, where u = "[]" and acc = toks]
    by (simp add: tokenize_def tokenize_loop_end)
  have p1: "parseGerber pf pre = parse_loop pf [] toks"
    by (simp add: parseGerber_def t1 parse_loop_append[OF eofs])
  have "parseGerber pf (pre @ ''%'' @ body)
          = parse_loop pf (parse_loop pf [] toks) [?tok, ?eof2]"
    using t2 by (simp add: parseGerber_def parse_loop_append[OF eofs] del: parse_loop.simps)
  also have "\<dots> = parse_loop pf [] toks @ [parseExtendedCommand pf body]"
    by (simp add: parseToken_def)
  finally have p2: "parseGerber pf (pre @ ''%'' @ body)
                      = parseGerber pf pre @ [parseExtendedCommand pf body]"
    by (simp add: p1)
  have "parseGerber pf (pre @ ''%'' @ body @ ''%'')
          = parse_loop pf (parse_loop pf [] toks) [?tok, ?eof3]"
    using t3 by (simp add: parseGerber_def parse_loop_append[OF eofs] del: parse_loop.simps)
  also have "\<dots> = parse_loop pf [] toks @ [parseExtendedCommand pf body]"
    by (simp add: parseToken_def)
  finally have "parseGerber pf (pre @ ''%'' @ body @ ''%'')
                  = parseGerber pf pre @ [parseExtendedCommand pf body]"
    by (simp add: p1)
  with p2 have p3: "parseGerber pf (pre @ ''%'' @ body) = parseGerber pf (pre @ ''%'' @ body @ ''%'')"
    by simp
  have "tokenize (pre @ ''%'' @ body) = butlast (tokenize pre) @ [?tok, ?eof2] \<and> tok_type ?eof2 = EOF"
    using t1 t2 by simp
  then have a: "\<exists>l c eof. tokenize (pre @ ''%'' @ body) =
            butlast (tokenize pre)
            @ [\<lparr>tok_type = EXTENDED_COMMAND, tok_value = body, tok_line = l, tok_column = c\<rparr>, eof]
            \<and> tok_type eof = EOF"
    by blast
  note k = parseExtendedCommand_class[of pf body]
  have b: "hasRecognisedPrefix body \<longrightarrow> (\<forall>raw. parseExtendedCommand pf body \<noteq> UnknownCommand raw)"
    using parseExtendedCommand_recognised[of pf body] by blast
  have c: "\<not> hasRecognisedPrefix body \<longrightarrow>
            parseExtendedCommand pf body = UnknownCommand (''%'' @ body @ ''%'')"
    using parseExtendedCommand_unknown[of body pf] by blast
  from a p2 p3 k b c show ?thesis by blast
qed

theorem unterminated_block_dispatch_witness:
  "parseGerber ParseFloat ''D10*%MOMM*'' = [SelectAperture 10, UnitMode ''MM'']
   \<and> parseGerber ParseFloat ''D10*%MOMM*%'' = [SelectAperture 10, UnitMode ''MM'']
   \<and> nodeType (parseExtendedCommand ParseFloat ''MOMM*'') = ''UnitMode''
   \<and> parseGerber ParseFloat ''D10*%XY'' = [SelectAperture 10, UnknownCommand ''%XY%'']
   \<and> parseGerber ParseFloat ''D10*%XY%'' = [SelectAperture 10, UnknownCommand ''%XY%'']"
proof -
  have "complete (''D10'' @ CHR ''*'' # [])"
    by (rule complete_command) (simp_all add: isWhitespace_def complete_empty)
  then have c: "complete ''D10*''" by simp
  have m: "CHR ''%'' \<notin> set ''MOMM*''" and x: "CHR ''%'' \<notin> set ''XY''" by simp_all
  have ux: "\<not> hasRecognisedPrefix ''XY''"
    by (simp add: hasRecognisedPrefix_def recognisedPrefixes_def startsWith_def endsWith_def)
  note A = unterminated_block_dispatch[OF c m, of ParseFloat]
  note B = unterminated_block_dispatch[OF c x, of ParseFloat]
  have A3: "parseGerber ParseFloat ''D10*%MOMM*%'' = parseGerber ParseFloat ''D10*%MOMM*''"
    using A[THEN conjunct2, THEN conjunct2, THEN conjunct1] by simp
  have B3: "parseGerber ParseFloat ''D10*%XY%'' = parseGerber ParseFloat ''D10*%XY''"
    using B[THEN conjunct2, THEN conjunct2, THEN conjunct1] by simp
  show ?thesis
    using A B ux
    by (simp add: A3 B3 parseGerber_D10 parseExtendedCommand_MOMM)
qed

text \<open>
  Claim C5, as stated: whenever the input ends inside an unterminated extended block, the
  parser turns the token of the block into an \<open>UnknownCommand\<close>. This fails: the input
  \<open>%MOMM*\<close> ends inside its block, the token holds \<open>MOMM*\<close> and the parser makes a
  \<open>UnitMode\<close> node of it.
\<close>

theorem unterminated_block_counterexample:
  "tokenize ''%MOMM*'' =
     [\<lparr>tok_type = EXTENDED_COMMAND, tok_value = ''MOMM*'', tok_line = 1, tok_column = 1\<rparr>,
      \<lparr>tok_type = EOF, tok_value = [], tok_line = 1, tok_column = 7\<rparr>]
   \<and> parseGerber ParseFloat ''%MOMM*'' = [UnitMode ''MM'']"
  by (simp add: tokenizer_eval parseGerber_def parseToken_def parseExtendedCommand_MOMM)

text \<open>
  Claim C10. For every digit \<open>n\<close> from 4 to 9, the command \<open>Dn\<close> is neither an aperture
  selection (its code is below 10) nor an operation (the d-code of an operation is 1, 2
  or 3): \<open>parseCommand\<close> returns the \<open>UnknownCommand\<close> whose raw text is the command
  followed by a star, and so does the whole parser on the source \<open>Dn*\<close>.
\<close>

theorem parseCommand_D4_to_D9:
  "c \<in> set ''456789'' \<Longrightarrow>
   parseCommand [CHR ''D'', c] = (UnknownCommand [CHR ''D'', c, CHR ''*''] :: 'n GerberNode)
   \<and> parseGerber (pf :: string \<Rightarrow> 'n::zero) [CHR ''D'', c, CHR ''*'']
       = [UnknownCommand [CHR ''D'', c, CHR ''*'']]"
  using parseCommand_D_digit[of c] parseGerber_D_digit[of c pf] by simp

theorem parseCommand_D4_to_D9_witness:
  "CHR ''5'' \<in> set ''456789''
   \<and> parseCommand ''D5'' = (UnknownCommand ''D5*'' :: number GerberNode)
   \<and> parseGerber ParseFloat ''D5*'' = [UnknownCommand ''D5*'']"
proof -
  have m: "CHR ''5'' \<in> set ''456789''" by simp
  show ?thesis
    using parseCommand_D4_to_D9[OF m, of ParseFloat] m by simp
qed

text \<open>
  Claim C7. \<open>GerberNode.parse\<close> fails exactly when the parser yields no node or more than
  one node for its input; when the parser yields exactly one node, it returns that node.
\<close>

theorem GerberNode_parse_single:
  "(isl (GerberNode_parse pf source) \<longleftrightarrow>
      (length (parseGerber pf source) = 0 \<or> length (parseGerber pf source) > 1))
   \<and> (\<forall>node. parseGerber pf source = [node] \<longrightarrow> GerberNode_parse pf source = Inr node)"
  by (auto simp: GerberNode_parse_def Let_def)

theorem GerberNode_parse_single_witness:
  "GerberNode_parse ParseFloat ''D10*'' = Inr (SelectAperture 10)
   \<and> isl (GerberNode_parse ParseFloat [])
   \<and> isl (GerberNode_parse ParseFloat ''D10*D11*'')"
  using GerberNode_parse_single[of ParseFloat "''D10*''"]
    GerberNode_parse_single[of ParseFloat "[]"]
    GerberNode_parse_single[of ParseFloat "''D10*D11*''"]
  by (simp add: parseGerber_D10 parseGerber_empty parseGerber_D10_D11)

text \<open>
  Claim C8. Constructing a \<open>SelectAperture\<close> node with a code below 10 fails; with a code
  of at least 10 it succeeds and the node holds the code.
\<close>

theorem new_SelectAperture_code:
  "(code < 10 \<longrightarrow> isl (new_SelectAperture code))
   \<and> (10 \<le> code \<longrightarrow> new_SelectAperture code = Inr (SelectAperture code))"
  by (simp add: new_SelectAperture_def)

theorem new_SelectAperture_code_witness:
  "isl (new_SelectAperture 5 :: error + number GerberNode)
   \<and> new_SelectAperture 10 = (Inr (SelectAperture 10) :: error + number GerberNode)"
  using new_SelectAperture_code[of 5] new_SelectAperture_code[of 10] by simp

text \<open>
  Claim C1. The claim says that parsing, serializing and parsing again gives the nodes of
  the first parse. The source \<open>%TD.*%\<close> is parsed to a \<open>DeleteAttribute\<close> whose name is the
  empty string; \<open>getString\<close> tests the name for truth and prints \<open>%TD*%\<close>, as for an absent
  name; parsing that gives a \<open>DeleteAttribute\<close> with no name, a different node.
\<close>

theorem roundtrip_delete_attribute:
  "parseGerber pf ''%TD.*%'' = [DeleteAttribute (Some [])]
   \<and> GerberFile_getString ns (GerberFile_parse pf ''%TD.*%'') = ''%TD*%'' @ [CHR 0x0A]
   \<and> parseGerber pf (GerberFile_getString ns (GerberFile_parse pf ''%TD.*%''))
       = [DeleteAttribute None]"
  by (simp add: GerberFile_parse_def GerberFile_getString_def parseGerber_TD_dot
      parseGerber_TD[simplified])

section \<open>Properties of the renderer\<close>

lemma updateBounds_state [simp]: "state (updateBounds x y r) = state r"
  by (simp add: updateBounds_def Let_def)

lemma updateBounds_fields [simp]:
  "flashes (updateBounds x y r) = flashes r"
  "paths (updateBounds x y r) = paths r"
  "regionPath (updateBounds x y r) = regionPath r"
  "regions (updateBounds x y r) = regions r"
  "apertures (updateBounds x y r) = apertures r"
  "options (updateBounds x y r) = options r"
  by (simp_all add: updateBounds_def Let_def)

lemma createFlash_state [simp]: "state (snd (createFlash x y r)) = state r"
  by (simp add: createFlash_def Let_def split: option.splits)

lemma createFlash_fields [simp]:
  "flashes (snd (createFlash x y r)) = flashes r"
  "paths (snd (createFlash x y r)) = paths r"
  "regionPath (snd (createFlash x y r)) = regionPath r"
  "regions (snd (createFlash x y r)) = regions r"
  "apertures (snd (createFlash x y r)) = apertures r"
  by (simp_all add: createFlash_def Let_def split: option.splits)

lemma createFlash_shape:
  "aperture (state r) \<noteq> None \<Longrightarrow> \<exists>f. fst (createFlash x y r) = Some f \<and> f \<noteq> []"
  by (auto simp: createFlash_def Let_def split: option.splits)

lemma handleOperation_point:
  "state (handleOperation dcode op_x op_y r) =
     (state r)\<lparr>state_x := (case op_x of Some v \<Rightarrow> convertCoordinate r v
                            | None \<Rightarrow> state_x (state r)),
               state_y := (case op_y of Some v \<Rightarrow> convertCoordinate r v
                            | None \<Rightarrow> state_y (state r))\<rparr>"
  by (cases dcode) (simp_all add: handleOperation_def Let_def split_beta split: option.splits)

lemma processCommand_formatSpec:
  "formatSpec (state (processCommand c r)) =
     (case formatSpecOf c of Some f \<Rightarrow> Some f | None \<Rightarrow> formatSpec (state r))"
  by (cases c) (simp_all add: handleOperation_point Let_def)

lemma processCommands_snoc:
  "processCommands r (cmds @ [c]) = processCommand c (processCommands r cmds)"
  by (simp add: processCommands_def)

lemma recentFormatSpec_snoc:
  "recentFormatSpec (cmds @ [c]) =
     (case formatSpecOf c of Some f \<Rightarrow> Some f | None \<Rightarrow> recentFormatSpec cmds)"
  by (induction cmds) (auto split: option.splits)

lemma processCommands_formatSpec:
  "formatSpec (state (processCommands r cmds)) =
     (case recentFormatSpec cmds of Some f \<Rightarrow> Some f | None \<Rightarrow> formatSpec (state r))"
proof (induction cmds rule: rev_induct)
  case Nil
  show ?case by (simp add: processCommands_def)
next
  case (snoc c cmds)
  show ?case
    by (simp add: processCommands_snoc recentFormatSpec_snoc processCommand_formatSpec snoc
        split: option.splits)
qed

lemma convertCoordinate_digits:
  "convertCoordinate r v =
     of_int v / 10 powi (case formatSpec (state r) of Some f \<Rightarrow> xDecimalDigits f | None \<Rightarrow> 4)"
  by (simp add: convertCoordinate_def Let_def power_int_def split: option.splits)

text \<open>
  Claim C2. Let the commands \<open>pre\<close> be processed by a new renderer, and let \<open>d\<close> be the
  x-decimal-digits of the most recent \<open>FormatSpecification\<close> among them, or 4 if there is
  none. Then every coordinate literal \<open>v\<close> is converted to \<open>v / 10^d\<close>, and an operation
  processed next moves the current point to its converted \<open>x\<close> and \<open>y\<close>, both with this
  \<open>d\<close>.
\<close>

theorem convertCoordinate_recent_format:
  "let r = processCommands (new_GerberToSvg opts) pre;
       d = (case recentFormatSpec pre of Some f \<Rightarrow> xDecimalDigits f | None \<Rightarrow> 4);
       r' = processCommand (Operation dcode op_x op_y op_i op_j) r
   in convertCoordinate r v = of_int v / 10 powi d
      \<and> state_x (state r') =
          (case op_x of Some vx \<Rightarrow> of_int vx / 10 powi d | None \<Rightarrow> state_x (state r))
      \<and> state_y (state r') =
          (case op_y of Some vy \<Rightarrow> of_int vy / 10 powi d | None \<Rightarrow> state_y (state r))"
proof -
  have fs: "formatSpec (state (processCommands (new_GerberToSvg opts) pre))
              = recentFormatSpec pre"
    by (simp add: processCommands_formatSpec new_GerberToSvg_def split: option.splits)
  show ?thesis
    by (simp add: Let_def handleOperation_point convertCoordinate_digits fs
        split: option.splits)
qed

lemma processCommand_keeps_point:
  "\<not> isOperation c \<Longrightarrow>
   state_x (state (processCommand c r)) = state_x (state r)
   \<and> state_y (state (processCommand c r)) = state_y (state r)"
  by (cases c) (simp_all add: Let_def)

lemma processCommands_keep_point:
  "\<forall>c \<in> set mid. \<not> isOperation c \<Longrightarrow>
   state_x (state (processCommands r mid)) = state_x (state r)
   \<and> state_y (state (processCommands r mid)) = state_y (state r)"
proof (induction mid rule: rev_induct)
  case Nil
  show ?case by (simp add: processCommands_def)
next
  case (snoc c mid)
  then show ?case
    using processCommand_keeps_point[of c "processCommands r mid"]
    by (simp add: processCommands_snoc)
qed

lemma getApertureWidth_updateBounds [simp]:
  "getApertureWidth (updateBounds x y r) = getApertureWidth r"
  by (simp add: getApertureWidth_def)

lemma handleOperation_drawn:
  "let newX = (case op_x of Some v \<Rightarrow> convertCoordinate r v | None \<Rightarrow> state_x (state r));
       newY = (case op_y of Some v \<Rightarrow> convertCoordinate r v | None \<Rightarrow> state_y (state r));
       r' = handleOperation d op_x op_y r;
       region = regionMode (state r);
       selected = (aperture (state r) \<noteq> None)
   in paths r' =
        (if d = D01 \<and> \<not> region \<and> selected
         then paths r @ [lineFromTo (state_x (state r)) (state_y (state r)) newX newY
                           (strokeColor (options r)) (getApertureWidth r)]
         else paths r)
      \<and> regionPath r' =
        (if d = D01 \<and> region
         then (if regionPath r = []
               then pathPoint ''M '' (state_x (state r)) (state_y (state r))
               else regionPath r) @ pathPoint '' L '' newX newY
         else if d = D02 \<and> region \<and> regionPath r \<noteq> []
         then regionPath r @ pathPoint '' M '' newX newY
         else regionPath r)
      \<and> (if d = D03 \<and> selected
          then \<exists>shape. fst (createFlash newX newY (updateBounds newX newY r)) = Some shape
                 \<and> flashes r' = flashes r @ [shape]
          else flashes r' = flashes r)
      \<and> bounds r' =
          bounds (if d = D03 \<and> selected
                  then snd (createFlash newX newY (updateBounds newX newY r))
                  else updateBounds newX newY r)"
proof -
  let ?newX = "case op_x of Some v \<Rightarrow> convertCoordinate r v | None \<Rightarrow> state_x (state r)"
  let ?newY = "case op_y of Some v \<Rightarrow> convertCoordinate r v | None \<Rightarrow> state_y (state r)"
  show ?thesis
  proof (cases d)
    case D01
    then show ?thesis
      by (simp add: handleOperation_def Let_def lineFromTo_def pathPoint_def)
  next
    case D02
    then show ?thesis
      by (simp add: handleOperation_def Let_def pathPoint_def)
  next
    case D03
    show ?thesis
    proof (cases "aperture (state r) = None")
      case True
      with D03 show ?thesis by (simp add: handleOperation_def Let_def)
    next
      case False
      then have "aperture (state (updateBounds ?newX ?newY r)) \<noteq> None" by simp
      then obtain f where f: "fst (createFlash ?newX ?newY (updateBounds ?newX ?newY r)) = Some f"
          "f \<noteq> []"
        using createFlash_shape by blast
      with False D03 show ?thesis
        by (simp add: handleOperation_def Let_def split_beta)
    qed
  qed
qed

text \<open>
  Claim C3. Let an operation \<open>O1\<close> be processed, then commands \<open>mid\<close> that are not operations,
  then an operation \<open>O2\<close>. Whatever their d-codes, \<open>O1\<close> leaves the current point at its new
  point, the commands between keep it, and the new point of \<open>O2\<close> is its converted \<open>x\<close> and
  \<open>y\<close> where present and the point left by \<open>O1\<close> for an omitted axis. The new point is the
  current point after \<open>O2\<close>, and it is the point of everything \<open>O2\<close> draws: the end of the
  line of a D01 outside a region (which starts at the point left by \<open>O1\<close>), the point
  appended to the region path by a D01 or a D02 inside a region (after the point left by
  \<open>O1\<close>, when a D01 opens the path), the place of the shape of a D03, and the point that
  extends the bounds. Nothing else is added to the paths, the region path or the flashes.
\<close>

theorem coordinate_modality:
  assumes "\<forall>c \<in> set mid. \<not> isOperation c"
  shows "let r1 = processCommand (Operation d1 x1 y1 i1 j1) r;
             r1' = processCommands r1 mid;
             r2 = processCommand (Operation d2 x2 y2 i2 j2) r1';
             leftX = state_x (state r1);
             leftY = state_y (state r1);
             newX = (case x2 of Some v \<Rightarrow> convertCoordinate r1' v | None \<Rightarrow> leftX);
             newY = (case y2 of Some v \<Rightarrow> convertCoordinate r1' v | None \<Rightarrow> leftY);
             region = regionMode (state r1');
             selected = (aperture (state r1') \<noteq> None)
         in leftX = (case x1 of Some v \<Rightarrow> convertCoordinate r v | None \<Rightarrow> state_x (state r))
            \<and> leftY = (case y1 of Some v \<Rightarrow> convertCoordinate r v | None \<Rightarrow> state_y (state r))
            \<and> state_x (state r1') = leftX \<and> state_y (state r1') = leftY
            \<and> state_x (state r2) = newX \<and> state_y (state r2) = newY
            \<and> paths r2 =
                (if d2 = D01 \<and> \<not> region \<and> selected
                 then paths r1' @ [lineFromTo leftX leftY newX newY
                                     (strokeColor (options r1')) (getApertureWidth r1')]
                 else paths r1')
            \<and> regionPath r2 =
                (if d2 = D01 \<and> region
                 then (if regionPath r1' = [] then pathPoint ''M '' leftX leftY
                       else regionPath r1') @ pathPoint '' L '' newX newY
                 else if d2 = D02 \<and> region \<and> regionPath r1' \<noteq> []
                 then regionPath r1' @ pathPoint '' M '' newX newY
                 else regionPath r1')
            \<and> (if d2 = D03 \<and> selected
                then \<exists>shape. fst (createFlash newX newY (updateBounds newX newY r1')) = Some shape
                       \<and> flashes r2 = flashes r1' @ [shape]
                else flashes r2 = flashes r1')
            \<and> bounds r2 =
                bounds (if d2 = D03 \<and> selected
                        then snd (createFlash newX newY (updateBounds newX newY r1'))
                        else updateBounds newX newY r1')"
proof -
  let ?r1 = "handleOperation d1 x1 y1 r"
  let ?r1' = "processCommands ?r1 mid"
  have keep: "state_x (state ?r1') = state_x (state ?r1)"
             "state_y (state ?r1') = state_y (state ?r1)"
    using processCommands_keep_point[OF assms, of ?r1] by simp_all
  have p1: "state_x (state ?r1) = (case x1 of Some v \<Rightarrow> convertCoordinate r v
                                    | None \<Rightarrow> state_x (state r))"
           "state_y (state ?r1) = (case y1 of Some v \<Rightarrow> convertCoordinate r v
                                    | None \<Rightarrow> state_y (state r))"
    by (simp_all add: handleOperation_point)
  have p2: "state_x (state (handleOperation d2 x2 y2 ?r1')) =
              (case x2 of Some v \<Rightarrow> convertCoordinate ?r1' v | None \<Rightarrow> state_x (state ?r1))"
           "state_y (state (handleOperation d2 x2 y2 ?r1')) =
              (case y2 of Some v \<Rightarrow> convertCoordinate ?r1' v | None \<Rightarrow> state_y (state ?r1))"
    by (simp_all add: handleOperation_point keep split: option.splits)
  note dr = handleOperation_drawn[where op_x = x2 and r = ?r1' and op_y = y2 and d = d2, unfolded Let_def keep]
  show ?thesis
    unfolding Let_def processCommand.simps
    using p1 p2 keep dr by blast
qed

theorem coordinate_modality_witness:
  "(let r = processCommands (new_GerberToSvg defaultOptions)
              [ApertureDefinition 10 ''C'' [1 / 10], SelectAperture 10];
        r1 = processCommand (Operation D02 (Some 10000) (Some 20000) None None) r;
        r2 = processCommand (Operation D01 (Some 30000) None None None)
               (processCommands r1 [Comment ''c'', LoadPolarity ''D'']);
        r3 = processCommand (Operation D03 None (Some 40000) None None) r1
    in state_x (state r1) = 1 \<and> state_y (state r1) = 2
       \<and> state_x (state r2) = 3 \<and> state_y (state r2) = 2
       \<and> paths r2 = [lineFromTo 1 2 3 2 ''#000'' (1 / 10)]
       \<and> state_x (state r3) = 1 \<and> state_y (state r3) = 4
       \<and> flashes r3 = [Text ''<circle'' # attr ''cx'' (Number 1) @ attr ''cy'' (Number 4)
                         @ attr ''r'' (Number (1 / 20)) @ attr ''fill'' (Text ''#000'')
                         @ [Text ''/>'']])
   \<and> (let r = processCommands (new_GerberToSvg defaultOptions) [RegionStart];
            r1 = processCommand (Operation D02 (Some 10000) (Some 20000) None None) r;
            r2 = processCommand (Operation D01 (Some 30000) None None None)
                   (processCommands r1 [Comment ''c'']);
            r1' = processCommand (Operation D01 (Some 10000) (Some 20000) None None) r;
            r2' = processCommand (Operation D02 (Some 30000) None None None) r1'
        in regionPath r2 = pathPoint ''M '' 1 2 @ pathPoint '' L '' 3 2
           \<and> regionPath r2' = pathPoint ''M '' 0 0 @ pathPoint '' L '' 1 2 @ pathPoint '' M '' 3 2
           \<and> state_x (state r2') = 3 \<and> state_y (state r2') = 2)"
proof -
  let ?mid = "[Comment ''c'', LoadPolarity ''D''] :: real GerberNode list"
  let ?mid' = "[Comment ''c''] :: real GerberNode list"
  let ?none = "[] :: real GerberNode list"
  let ?a = "processCommands (new_GerberToSvg defaultOptions)
              [ApertureDefinition 10 ''C'' [1 / 10], SelectAperture 10]"
  let ?b = "processCommands (new_GerberToSvg defaultOptions) [RegionStart]"
  let ?a1 = "handleOperation D02 (Some 10000) (Some 20000) ?a"
  let ?b1 = "handleOperation D02 (Some 10000) (Some 20000) ?b"
  let ?b1' = "handleOperation D01 (Some 10000) (Some 20000) ?b"
  let ?am = "processCommands ?a1 ?mid"
  let ?bm = "processCommands ?b1 ?mid'"
  have ops: "\<forall>c \<in> set ?mid. \<not> isOperation c" "\<forall>c \<in> set ?mid'. \<not> isOperation c"
    "\<forall>c \<in> set ?none. \<not> isOperation c"
    by simp_all
  have nil: "processCommands r [] = r" for r
    by (simp add: processCommands_def)
  have a: "formatSpec (state ?a) = None" "state_x (state ?a) = 0" "state_y (state ?a) = 0"
    by (simp_all add: processCommands_def new_GerberToSvg_def)
  have b: "formatSpec (state ?b) = None" "state_x (state ?b) = 0" "state_y (state ?b) = 0"
    by (simp_all add: processCommands_def new_GerberToSvg_def)
  have am: "formatSpec (state ?am) = None" "\<not> regionMode (state ?am)"
      "aperture (state ?am) = Some \<lparr>ap_code = 10, ap_template = ''C'', ap_params = [1 / 10]\<rparr>"
      "paths ?am = []" "strokeColor (options ?am) = ''#000''"
    by (simp_all add: processCommands_def new_GerberToSvg_def defaultOptions_def orElse_def
        handleOperation_def Let_def updateBounds_def)
  have a1: "formatSpec (state ?a1) = None"
      "aperture (state ?a1) = Some \<lparr>ap_code = 10, ap_template = ''C'', ap_params = [1 / 10]\<rparr>"
      "flashes ?a1 = []" "fillColor (options ?a1) = ''#000''"
    by (simp_all add: processCommands_def new_GerberToSvg_def defaultOptions_def orElse_def
        handleOperation_def Let_def updateBounds_def)
  have bm: "formatSpec (state ?bm) = None" "regionMode (state ?bm)" "regionPath ?bm = []"
    by (simp_all add: processCommands_def new_GerberToSvg_def defaultOptions_def orElse_def
        handleOperation_def Let_def updateBounds_def)
  have b1': "formatSpec (state ?b1') = None" "regionMode (state ?b1')"
      "regionPath ?b1' = pathPoint ''M '' 0 0 @ pathPoint '' L '' 1 2"
    by (simp_all add: processCommands_def new_GerberToSvg_def defaultOptions_def orElse_def
        handleOperation_def Let_def updateBounds_def convertCoordinate_def pathPoint_def)
  have line: "state_x (state ?a1) = 1 \<and> state_y (state ?a1) = 2
       \<and> state_x (state (handleOperation D01 (Some 30000) None ?am)) = 3
       \<and> state_y (state (handleOperation D01 (Some 30000) None ?am)) = 2
       \<and> paths (handleOperation D01 (Some 30000) None ?am) = [lineFromTo 1 2 3 2 ''#000'' (1 / 10)]"
    using coordinate_modality[OF ops(1), of D02 "Some 10000" "Some 20000" None None ?a
        D01 "Some 30000" None None None]
    by (simp add: Let_def convertCoordinate_def a am getApertureWidth_def)
  have flash: "state_x (state (handleOperation D03 None (Some 40000) ?a1)) = 1
       \<and> state_y (state (handleOperation D03 None (Some 40000) ?a1)) = 4
       \<and> flashes (handleOperation D03 None (Some 40000) ?a1) =
           [Text ''<circle'' # attr ''cx'' (Number 1) @ attr ''cy'' (Number 4)
            @ attr ''r'' (Number (1 / 20)) @ attr ''fill'' (Text ''#000'') @ [Text ''/>'']]"
    using coordinate_modality[OF ops(3), of D02 "Some 10000" "Some 20000" None None ?a
        D03 None "Some 40000" None None]
    by (simp add: Let_def convertCoordinate_def a a1 createFlash_def nil)
  have regionLine: "regionPath (handleOperation D01 (Some 30000) None ?bm)
                      = pathPoint ''M '' 1 2 @ pathPoint '' L '' 3 2"
    using coordinate_modality[OF ops(2), of D02 "Some 10000" "Some 20000" None None ?b
        D01 "Some 30000" None None None]
    by (simp add: Let_def convertCoordinate_def b bm)
  have regionMove: "regionPath (handleOperation D02 (Some 30000) None ?b1')
                      = pathPoint ''M '' 0 0 @ pathPoint '' L '' 1 2 @ pathPoint '' M '' 3 2
       \<and> state_x (state (handleOperation D02 (Some 30000) None ?b1')) = 3
       \<and> state_y (state (handleOperation D02 (Some 30000) None ?b1')) = 2"
    using coordinate_modality[OF ops(3), of D01 "Some 10000" "Some 20000" None None ?b
        D02 "Some 30000" None None None]
    by (simp add: Let_def convertCoordinate_def b b1' nil pathPoint_def)
  show ?thesis
    unfolding Let_def processCommand.simps
    using line flash regionLine regionMove by (simp add: nil)
qed





end
